theory Spec2Isabelle
  imports Complex_Main "HOL-Library.AList" "HOL-Library.Multiset"
begin

section \<open>JavaScript values as the upstream JSON delivers them\<close>

text \<open>
  The data layer (data.ts) receives the result of \<^verbatim>\<open>response.json()\<close> typed as
  \<^verbatim>\<open>unknown\<close> and reads it with property access, \<^verbatim>\<open>??\<close>, truthiness tests and the
  coercions \<^verbatim>\<open>Number(v)\<close> and \<^verbatim>\<open>String(v)\<close>. The normalizers do no arithmetic on
  numbers: they only coerce, test finiteness and compare with zero, so a finite number is
  kept as a rational (\<^verbatim>\<open>-0\<close> and \<^verbatim>\<open>0\<close> are identified: both are falsy and finite).
\<close>

datatype js_number = Finite rat | NaN | PosInfinity | NegInfinity

datatype json =
    JUndefined
  | JNull
  | JBool bool
  | JNum js_number
  | JStr string
  | JArr "json list"
  | JObj "(string \<times> json) list"

text \<open>
  Every value that the data layer can throw, reject with or receive as the reason of an
  abort. \<open>TypeError\<close> is a TypeError of the runtime ("Cannot convert object to
  primitive value", "Cannot read properties of null"). The last three are the values that
  are not instances of \<^verbatim>\<open>Error\<close>: \<^verbatim>\<open>null\<close>, \<^verbatim>\<open>undefined\<close>, and any other such
  value \<open>v\<close>, kept as the string \<^verbatim>\<open>String(v)\<close>.
\<close>

datatype thrown =
    TypeError
  | RequestFailed int string
  | UrlError string string
  | NotAnArray string
  | ErrorObject string
  | FailedToFetch string string
  | NullValue
  | UndefinedValue
  | NonError string

text \<open>Sequencing of two steps that may throw.\<close>

definition andThen :: "thrown + 'a \<Rightarrow> ('a \<Rightarrow> thrown + 'b) \<Rightarrow> thrown + 'b" where
  "andThen m f = (case m of Inl e \<Rightarrow> Inl e | Inr x \<Rightarrow> f x)"

text \<open>
  The parts of the runtime that are not code of this repository: the number-to-string
  and string-to-number conversions of ECMAScript and the WHATWG URL constructor
  (\<open>None\<close> when \<^verbatim>\<open>new URL(path, base)\<close> throws).
\<close>

record platform =
  finiteToString :: "rat \<Rightarrow> string"
  stringToNumber :: "string \<Rightarrow> js_number"
  newURL :: "string \<Rightarrow> string \<Rightarrow> string option"

text \<open>\<^verbatim>\<open>raw.key\<close>. A read on \<^verbatim>\<open>null\<close> or \<^verbatim>\<open>undefined\<close> throws a TypeError. A key
  that an object does not own reads as \<^verbatim>\<open>undefined\<close>. None of the keys the data layer
  reads is a property of \<^verbatim>\<open>Object.prototype\<close>, of \<^verbatim>\<open>Array.prototype\<close> or of the
  wrapper of a primitive, so an array (which also passes \<^verbatim>\<open>typeof v === 'object'\<close>), a
  number, a string or a boolean reads as \<^verbatim>\<open>undefined\<close> everywhere.\<close>

fun getProp :: "json \<Rightarrow> string \<Rightarrow> thrown + json" where
  "getProp (JObj kvs) k = Inr (case map_of kvs k of None \<Rightarrow> JUndefined | Some v \<Rightarrow> v)"
| "getProp JNull k = Inl TypeError"
| "getProp JUndefined k = Inl TypeError"
| "getProp v k = Inr JUndefined"

text \<open>\<^verbatim>\<open>a ?? b\<close>\<close>

fun nullish :: "json \<Rightarrow> json \<Rightarrow> json" where
  "nullish JUndefined b = b"
| "nullish JNull b = b"
| "nullish a b = a"

text \<open>\<^verbatim>\<open>raw.k1 ?? raw.k2 ?? ... ?? raw.kn\<close>: the reads are made from the left, up to the
  first one whose value is neither \<^verbatim>\<open>null\<close> nor \<^verbatim>\<open>undefined\<close>; when there is none,
  the value of the last read as it is, \<^verbatim>\<open>null\<close> or \<^verbatim>\<open>undefined\<close>.\<close>

fun firstOf :: "json \<Rightarrow> string list \<Rightarrow> thrown + json" where
  "firstOf raw [] = Inr JUndefined"
| "firstOf raw [k] = getProp raw k"
| "firstOf raw (k # ks) =
     (case getProp raw k of
        Inl e \<Rightarrow> Inl e
      | Inr v \<Rightarrow>
          (case v of
             JUndefined \<Rightarrow> firstOf raw ks
           | JNull \<Rightarrow> firstOf raw ks
           | _ \<Rightarrow> Inr v))"

text \<open>\<^verbatim>\<open>!v\<close> is \<open>\<not> truthy v\<close>.\<close>

fun truthy :: "json \<Rightarrow> bool" where
  "truthy JUndefined = False"
| "truthy JNull = False"
| "truthy (JBool b) = b"
| "truthy (JNum (Finite q)) = (q \<noteq> 0)"
| "truthy (JNum NaN) = False"
| "truthy (JNum PosInfinity) = True"
| "truthy (JNum NegInfinity) = True"
| "truthy (JStr s) = (s \<noteq> [])"
| "truthy (JArr xs) = True"
| "truthy (JObj kvs) = True"

text \<open>\<^verbatim>\<open>typeof v === 'object' && v !== null\<close>\<close>

fun isObject :: "json \<Rightarrow> bool" where
  "isObject (JArr xs) = True"
| "isObject (JObj kvs) = True"
| "isObject _ = False"

fun isFinite :: "js_number \<Rightarrow> bool" where
  "isFinite (Finite q) = True"
| "isFinite _ = False"

fun numberToString :: "platform \<Rightarrow> js_number \<Rightarrow> string" where
  "numberToString p (Finite q) = finiteToString p q"
| "numberToString p NaN = ''NaN''"
| "numberToString p PosInfinity = ''Infinity''"
| "numberToString p NegInfinity = ''-Infinity''"

text \<open>
  \<^verbatim>\<open>String(v)\<close>. An object goes through OrdinaryToPrimitive: the runtime reads
  \<^verbatim>\<open>v.toString\<close> and calls it when it is callable. A JSON object that owns a key
  \<^verbatim>\<open>toString\<close> shadows \<^verbatim>\<open>Object.prototype.toString\<close> with a value that is not
  callable, \<^verbatim>\<open>valueOf\<close> (own or inherited) never yields a primitive, and the
  conversion throws a TypeError. An array is joined with commas, \<^verbatim>\<open>null\<close> and
  \<^verbatim>\<open>undefined\<close> elements giving the empty string.
\<close>

fun toStringJS :: "platform \<Rightarrow> json \<Rightarrow> thrown + string"
  and joinElements :: "platform \<Rightarrow> json list \<Rightarrow> thrown + string" where
  "toStringJS p JUndefined = Inr ''undefined''"
| "toStringJS p JNull = Inr ''null''"
| "toStringJS p (JBool b) = Inr (if b then ''true'' else ''false'')"
| "toStringJS p (JNum n) = Inr (numberToString p n)"
| "toStringJS p (JStr s) = Inr s"
| "toStringJS p (JArr xs) = joinElements p xs"
| "toStringJS p (JObj kvs) =
     (case map_of kvs ''toString'' of
        None \<Rightarrow> Inr ''[object Object]''
      | Some f \<Rightarrow> Inl TypeError)"
| "joinElements p [] = Inr []"
| "joinElements p (x # xs) =
     (case (case x of JUndefined \<Rightarrow> Inr [] | JNull \<Rightarrow> Inr [] | _ \<Rightarrow> toStringJS p x) of
        Inl e \<Rightarrow> Inl e
      | Inr s \<Rightarrow>
          (case xs of
             [] \<Rightarrow> Inr s
           | y # ys \<Rightarrow>
               (case joinElements p xs of
                  Inl e \<Rightarrow> Inl e
                | Inr r \<Rightarrow> Inr (s @ '','' @ r))))"

text \<open>\<^verbatim>\<open>Number(v)\<close>: an object or array is first converted to a primitive, which for
  JSON data is its string.\<close>

fun toNumberJS :: "platform \<Rightarrow> json \<Rightarrow> thrown + js_number" where
  "toNumberJS p JUndefined = Inr NaN"
| "toNumberJS p JNull = Inr (Finite 0)"
| "toNumberJS p (JBool b) = Inr (Finite (if b then 1 else 0))"
| "toNumberJS p (JNum n) = Inr n"
| "toNumberJS p (JStr s) = Inr (stringToNumber p s)"
| "toNumberJS p v =
     (case toStringJS p v of
        Inl e \<Rightarrow> Inl e
      | Inr s \<Rightarrow> Inr (stringToNumber p s))"

text \<open>The values on which the two coercions throw: an object that owns a key
  \<^verbatim>\<open>toString\<close>, or an array that holds such a value.\<close>

fun ownsToString :: "json \<Rightarrow> bool" where
  "ownsToString (JObj kvs) = (map_of kvs ''toString'' \<noteq> None)"
| "ownsToString (JArr xs) = (\<exists>x \<in> set xs. ownsToString x)"
| "ownsToString _ = False"

section \<open>Response Normalizer (data.ts)\<close>

record ServiceConfig =
  port :: int
  baseUrl :: string
  facilitiesPath :: string
  availabilityPath :: string
  requestTimeoutMs :: int
  availabilityTtlMs :: int
  facilitiesTtlMs :: int
  overallTimeoutMs :: int

record FacilityMetadata =
  meta_id :: string
  meta_name :: string
  meta_lat :: js_number
  meta_lon :: js_number
  meta_capacity :: "js_number option"
  meta_tariffNote :: "string option"
  meta_zoneCode :: "string option"
  meta_sourceUrl :: string

record FacilityAvailability =
  avail_id :: string
  avail_freeSpaces :: "js_number option"
  avail_capacity :: "js_number option"
  avail_lastUpdated :: "string option"

fun toNumberOrNull :: "platform \<Rightarrow> json \<Rightarrow> thrown + js_number option" where
  "toNumberOrNull p JNull = Inr None"
| "toNumberOrNull p JUndefined = Inr None"
| "toNumberOrNull p v =
     (case toNumberJS p v of
        Inl e \<Rightarrow> Inl e
      | Inr num \<Rightarrow> Inr (if isFinite num then Some num else None))"

fun toStringOrNull :: "platform \<Rightarrow> json \<Rightarrow> thrown + string option" where
  "toStringOrNull p JNull = Inr None"
| "toStringOrNull p JUndefined = Inr None"
| "toStringOrNull p v =
     (case toStringJS p v of
        Inl e \<Rightarrow> Inl e
      | Inr str \<Rightarrow> Inr (if length str > 0 then Some str else None))"

text \<open>The assignments to \<^verbatim>\<open>latValue\<close> and \<^verbatim>\<open>lonValue\<close> of lines 131 to 139, given
  \<^verbatim>\<open>positionValue\<close> (line 125): the top-level chain, and the chain under the position
  object only when the top-level chain is \<^verbatim>\<open>undefined\<close> and \<^verbatim>\<open>positionValue\<close> is an
  object.\<close>

definition latValue :: "json \<Rightarrow> json \<Rightarrow> thrown + json" where
  "latValue raw positionValue =
     andThen (firstOf raw [''lat'', ''latitude'', ''Latitude'']) (\<lambda>v.
       if v = JUndefined \<and> isObject positionValue
       then firstOf positionValue [''lat'', ''Lat'', ''latitude'', ''Latitude'']
       else Inr v)"

definition lonValue :: "json \<Rightarrow> json \<Rightarrow> thrown + json" where
  "lonValue raw positionValue =
     andThen (firstOf raw [''lon'', ''longitude'', ''Longitude'']) (\<lambda>v.
       if v = JUndefined \<and> isObject positionValue
       then firstOf positionValue [''lon'', ''Lon'', ''longitude'', ''Longitude'']
       else Inr v)"

definition normalizeFacilityMetadata ::
  "platform \<Rightarrow> json \<Rightarrow> ServiceConfig \<Rightarrow> thrown + FacilityMetadata option" where
  "normalizeFacilityMetadata p raw config =
     andThen (firstOf raw [''id'', ''Id'', ''facilityId'', ''FacilityId'']) (\<lambda>idValue.
     andThen (firstOf raw [''name'', ''Name'', ''siteName'', ''SiteName'']) (\<lambda>nameValue.
     andThen (firstOf raw [''position'', ''Position'']) (\<lambda>positionValue.
     andThen (latValue raw positionValue) (\<lambda>latV.
     andThen (lonValue raw positionValue) (\<lambda>lonV.
       if \<not> truthy idValue \<or> \<not> truthy nameValue \<or> latV = JUndefined \<or> lonV = JUndefined
       then Inr None
       else
         andThen (toNumberJS p latV) (\<lambda>lat.
         andThen (toNumberJS p lonV) (\<lambda>lon.
           if \<not> isFinite lat \<or> \<not> isFinite lon then Inr None
           else
             andThen (andThen (firstOf raw [''capacity'', ''Capacity''])
                        (toNumberOrNull p)) (\<lambda>capacity.
             andThen (andThen (firstOf raw [''tariffNote'', ''TariffNote''])
                        (toStringOrNull p)) (\<lambda>tariffNote.
             andThen (andThen (firstOf raw [''zoneCode'', ''ZoneCode''])
                        (toStringOrNull p)) (\<lambda>zoneCode.
             andThen (andThen (firstOf raw [''sourceUrl'', ''SourceUrl'', ''url'', ''Url''])
                        (\<lambda>v. toStringOrNull p
                               (nullish v (JStr (baseUrl config @ facilitiesPath config))))) (\<lambda>src.
             andThen (toStringJS p idValue) (\<lambda>idStr.
             andThen (toStringJS p nameValue) (\<lambda>nameStr.
               Inr (Some \<lparr> meta_id = idStr,
                           meta_name = nameStr,
                           meta_lat = lat,
                           meta_lon = lon,
                           meta_capacity = capacity,
                           meta_tariffNote = tariffNote,
                           meta_zoneCode = zoneCode,
                           meta_sourceUrl =
                             (case src of
                                None \<Rightarrow> baseUrl config @ facilitiesPath config
                              | Some s \<Rightarrow> s) \<rparr>))))))))))))))"

definition normalizeAvailability :: "platform \<Rightarrow> json \<Rightarrow> thrown + FacilityAvailability option" where
  "normalizeAvailability p raw =
     andThen (firstOf raw [''id'', ''Id'', ''facilityId'', ''FacilityId'']) (\<lambda>idValue.
       if \<not> truthy idValue then Inr None
       else
         andThen (andThen (firstOf raw [''freeSpaces'', ''FreeSpaces'', ''vacant'', ''Vacant''])
                    (toNumberOrNull p)) (\<lambda>freeSpaces.
         andThen (andThen (firstOf raw [''capacity'', ''Capacity''])
                    (toNumberOrNull p)) (\<lambda>capacity.
         andThen (andThen (firstOf raw [''lastUpdated'', ''LastUpdated'', ''updatedAt'',
                                        ''UpdatedAt'', ''timestamp'', ''Timestamp''])
                    (toStringOrNull p)) (\<lambda>lastUpdated.
         andThen (toStringJS p idValue) (\<lambda>idStr.
           Inr (Some \<lparr> avail_id = idStr,
                       avail_freeSpaces = freeSpaces,
                       avail_capacity = capacity,
                       avail_lastUpdated = lastUpdated \<rparr>))))))"

section \<open>Retrying Fetcher (data.ts, fetchWithRetries)\<close>

text \<open>
  What the network does at one attempt, as the code observes it: the outcome of
  \<^verbatim>\<open>await fetch(url, ...)\<close>, of the body reads \<^verbatim>\<open>response.text()\<close> and
  \<^verbatim>\<open>response.json()\<close>, and, read in the catch block, whether
  \<^verbatim>\<open>signal.aborted && externalSignal?.aborted\<close> holds (then with
  \<^verbatim>\<open>externalSignal.reason\<close>).
\<close>

record Response =
  resp_status :: int
  resp_text :: "thrown + string"
  resp_json :: "thrown + json"

record Attempt =
  fetched :: "thrown + Response"
  externalAborted :: "thrown option"

text \<open>The observable effects, in the order in which the code performs them.\<close>

datatype field = FNum int | FStr string | FErr thrown

datatype event =
    Fetch string nat
  | Sleep nat
  | LogInfo string "(string \<times> field) list"
  | LogError string "(string \<times> field) list"

definition RETRY_STATUS_CODES :: "int list" where
  "RETRY_STATUS_CODES = [429, 500, 502, 503, 504]"

definition MAX_ATTEMPTS :: nat where
  "MAX_ATTEMPTS = 3"

text \<open>\<^verbatim>\<open>response.ok\<close>\<close>

definition ok :: "Response \<Rightarrow> bool" where
  "ok response = (200 \<le> resp_status response \<and> resp_status response \<le> 299)"

text \<open>\<^verbatim>\<open>200 * 2 ** (attempt - 1)\<close>\<close>

definition backoff :: "nat \<Rightarrow> nat" where
  "backoff attempt = 200 * 2 ^ (attempt - 1)"

text \<open>\<^verbatim>\<open>String(v)\<close> for a value that is not an instance of \<^verbatim>\<open>Error\<close>; \<open>None\<close> for
  an instance of \<^verbatim>\<open>Error\<close>.\<close>

fun nonErrorText :: "thrown \<Rightarrow> string option" where
  "nonErrorText NullValue = Some ''null''"
| "nonErrorText UndefinedValue = Some ''undefined''"
| "nonErrorText (NonError s) = Some s"
| "nonErrorText e = None"

text \<open>How the try block of one attempt ends: it returns the parsed body, it reaches
  \<^verbatim>\<open>continue\<close> (a retryable status before the last attempt), or it throws. The
  \<^verbatim>\<open>throw new Error(`Request failed with status ...`)\<close> of line 88 stands inside the
  try block.\<close>

datatype completion = Return json | Continue int | Throw thrown

definition tryBlock :: "Attempt \<Rightarrow> nat \<Rightarrow> completion" where
  "tryBlock a attempt =
     (case fetched a of
        Inl e \<Rightarrow> Throw e
      | Inr response \<Rightarrow>
          if \<not> ok response then
            if resp_status response \<in> set RETRY_STATUS_CODES \<and> attempt < MAX_ATTEMPTS
            then Continue (resp_status response)
            else (case resp_text response of
                    Inl e \<Rightarrow> Throw e
                  | Inr body \<Rightarrow> Throw (RequestFailed (resp_status response) body))
          else (case resp_json response of
                  Inl e \<Rightarrow> Throw e
                | Inr v \<Rightarrow> Return v))"

text \<open>The \<^verbatim>\<open>throw\<close> after the loop (lines 113 to 115): \<^verbatim>\<open>lastError\<close> itself when it
  is an instance of \<^verbatim>\<open>Error\<close>, otherwise a new error that quotes \<^verbatim>\<open>String(lastError)\<close>;
  \<open>None\<close> is a \<^verbatim>\<open>lastError\<close> that was never assigned.\<close>

fun surfaced :: "string \<Rightarrow> thrown option \<Rightarrow> thrown" where
  "surfaced url None = FailedToFetch url ''undefined''"
| "surfaced url (Some e) =
     (case nonErrorText e of
        None \<Rightarrow> e
      | Some s \<Rightarrow> FailedToFetch url s)"

text \<open>The \<^verbatim>\<open>throw\<close> of the catch block when the external signal has fired (lines 94 to
  96): the reason itself when it is an instance of \<^verbatim>\<open>Error\<close>, otherwise
  \<^verbatim>\<open>new Error(String(reason ?? 'Aborted'))\<close>.\<close>

fun abortReason :: "thrown \<Rightarrow> thrown" where
  "abortReason NullValue = ErrorObject ''Aborted''"
| "abortReason UndefinedValue = ErrorObject ''Aborted''"
| "abortReason (NonError s) = ErrorObject s"
| "abortReason reason = reason"

text \<open>The loop \<^verbatim>\<open>for (let attempt = 1; attempt <= MAX_ATTEMPTS; attempt += 1)\<close>, from
  the given attempt on, with the current \<^verbatim>\<open>lastError\<close>. The network is a function from
  the attempt number to what happens at that attempt.\<close>

function fetchLoop ::
  "string \<Rightarrow> (nat \<Rightarrow> Attempt) \<Rightarrow> nat \<Rightarrow> thrown option \<Rightarrow> (thrown + json) \<times> event list" where
  "fetchLoop url net attempt lastError =
     (if attempt \<le> MAX_ATTEMPTS then
        (case tryBlock (net attempt) attempt of
           Return v \<Rightarrow> (Inr v, [Fetch url attempt])
         | Continue st \<Rightarrow>
             (let (r, evs) = fetchLoop url net (attempt + 1) lastError
              in (r, [Fetch url attempt,
                      LogInfo ''Retrying upstream request''
                        [(''attempt'', FNum (int attempt)), (''status'', FNum st),
                         (''url'', FStr url), (''delay'', FNum (int (backoff attempt)))],
                      Sleep (backoff attempt)] @ evs))
         | Throw error \<Rightarrow>
             (case externalAborted (net attempt) of
                Some reason \<Rightarrow> (Inl (abortReason reason), [Fetch url attempt])
              | None \<Rightarrow>
                  if attempt \<ge> MAX_ATTEMPTS
                  then (Inl (surfaced url (Some error)), [Fetch url attempt])
                  else
                    (let (r, evs) = fetchLoop url net (attempt + 1) (Some error)
                     in (r, [Fetch url attempt,
                             LogInfo ''Retrying upstream request after error''
                               [(''attempt'', FNum (int attempt)), (''url'', FStr url),
                                (''delay'', FNum (int (backoff attempt))), (''error'', FErr error)],
                             Sleep (backoff attempt)] @ evs))))
      else (Inl (surfaced url lastError), []))"
  by pat_completeness auto
termination
  by (relation "measure (\<lambda>(url, net, attempt, lastError). MAX_ATTEMPTS + 1 - attempt)") auto

declare fetchLoop.simps [simp del]

definition fetchWithRetries :: "string \<Rightarrow> (nat \<Rightarrow> Attempt) \<Rightarrow> (thrown + json) \<times> event list" where
  "fetchWithRetries url net = fetchLoop url net 1 None"




section \<open>Facility Cache (data.ts, getFacilities)\<close>

record 'a CacheEntry =
  cached_value :: 'a
  expiresAt :: int

definition buildUrl :: "platform \<Rightarrow> string \<Rightarrow> string \<Rightarrow> thrown + string" where
  "buildUrl p base path =
     (case newURL p path base of
        None \<Rightarrow> Inl (UrlError base path)
      | Some url \<Rightarrow> Inr url)"

text \<open>\<^verbatim>\<open>items.map(f).filter((item) => item !== null)\<close>, where a call of \<open>f\<close> may throw:
  the first call that throws ends the whole expression.\<close>

fun mapThenDropNull :: "('a \<Rightarrow> thrown + 'b option) \<Rightarrow> 'a list \<Rightarrow> thrown + 'b list" where
  "mapThenDropNull f [] = Inr []"
| "mapThenDropNull f (x # xs) =
     andThen (f x) (\<lambda>r.
     andThen (mapThenDropNull f xs) (\<lambda>rs.
       Inr (case r of None \<Rightarrow> rs | Some m \<Rightarrow> m # rs)))"

text \<open>
  One call of \<^verbatim>\<open>getFacilities\<close>: \<open>now\<close> is \<^verbatim>\<open>Date.now()\<close> at its start, \<open>cache\<close> is
  \<^verbatim>\<open>facilityCache.entry\<close>, \<open>net\<close> is what the network does if the call fetches. The
  result is what the promise settles with, the cache slot as the call leaves it, and the
  trace. The only write to the slot is the assignment of line 216, which replaces the
  entry whatever it holds when the fetch has returned.
\<close>

definition getFacilities ::
  "platform \<Rightarrow> ServiceConfig \<Rightarrow> int \<Rightarrow> (nat \<Rightarrow> Attempt) \<Rightarrow> FacilityMetadata list CacheEntry option \<Rightarrow>
   (thrown + FacilityMetadata list) \<times> FacilityMetadata list CacheEntry option \<times> event list" where
  "getFacilities p config now net cache =
     (case (case cache of
              None \<Rightarrow> None
            | Some cached \<Rightarrow> if expiresAt cached > now then Some (cached_value cached) else None) of
        Some v \<Rightarrow> (Inr v, cache, [])
      | None \<Rightarrow>
          (case buildUrl p (baseUrl config) (facilitiesPath config) of
             Inl e \<Rightarrow> (Inl e, cache, [])
           | Inr url \<Rightarrow>
               (case fetchWithRetries url net of
                  (Inl e, evs) \<Rightarrow> (Inl e, cache, evs)
                | (Inr rawData, evs) \<Rightarrow>
                    (case rawData of
                       JArr items \<Rightarrow>
                         (case mapThenDropNull (\<lambda>item. normalizeFacilityMetadata p item config)
                                 (filter isObject items) of
                            Inl e \<Rightarrow> (Inl e, cache, evs)
                          | Inr facilities \<Rightarrow>
                              (Inr facilities,
                               Some \<lparr> cached_value = facilities,
                                      expiresAt = now + facilitiesTtlMs config \<rparr>,
                               evs @ [LogInfo ''Loaded facilities metadata''
                                        [(''count'', FNum (int (length facilities)))]]))
                     | _ \<Rightarrow> (Inl (NotAnArray ''Facilities response is not an array''), cache, evs)))))"

section \<open>Availability Cache (data.ts, refreshAvailability and getAvailability)\<close>

text \<open>
  \<^verbatim>\<open>Map<string, FacilityAvailability>\<close> keeps its keys in insertion order, and
  \<^verbatim>\<open>set\<close> on a key that is present replaces the value in place: an association list
  under \<^const>\<open>AList.update\<close>.
\<close>

type_synonym availability = "(string \<times> FacilityAvailability) list"

fun collectAvailability :: "platform \<Rightarrow> json list \<Rightarrow> availability \<Rightarrow> thrown + availability" where
  "collectAvailability p [] availability = Inr availability"
| "collectAvailability p (item # rest) availability =
     (if \<not> isObject item then collectAvailability p rest availability
      else
        andThen (normalizeAvailability p item) (\<lambda>normalized.
          case normalized of
            None \<Rightarrow> collectAvailability p rest availability
          | Some a \<Rightarrow> collectAvailability p rest (AList.update (avail_id a) a availability)))"

definition refreshAvailability ::
  "platform \<Rightarrow> ServiceConfig \<Rightarrow> (nat \<Rightarrow> Attempt) \<Rightarrow> (thrown + availability) \<times> event list" where
  "refreshAvailability p config net =
     (case buildUrl p (baseUrl config) (availabilityPath config) of
        Inl e \<Rightarrow> (Inl e, [])
      | Inr url \<Rightarrow>
          (case fetchWithRetries url net of
             (Inl e, evs) \<Rightarrow> (Inl e, evs)
           | (Inr rawData, evs) \<Rightarrow>
               (case rawData of
                  JArr items \<Rightarrow> (collectAvailability p items [], evs)
                | _ \<Rightarrow> (Inl (NotAnArray ''Availability response is not an array''), evs))))"

record AvailabilityCacheEntry = "availability CacheEntry" +
  revalidatePromise :: "nat option"

record AvailabilityResult =
  data :: availability
  stale :: bool

text \<open>
  \<^verbatim>\<open>getAvailability\<close> is asynchronous and shares \<^verbatim>\<open>availabilityCache.entry\<close> with every
  other call. The runtime is single-threaded: the code between two suspension points
  runs without interruption, so the function is modelled by its uninterrupted pieces, each
  a function on the state of the slot:
  \<^item> \<open>getAvailability_call\<close>: from the entry of the function to its first \<^verbatim>\<open>return\<close> or to
    the \<^verbatim>\<open>await\<close> of line 297;
  \<^item> \<open>backgroundSettled\<close>: the \<^verbatim>\<open>then\<close> and \<^verbatim>\<open>catch\<close> handlers of lines 270 to 285, run
    when a background refresh has settled;
  \<^item> \<open>getAvailability_resume\<close>: lines 298 to 310, run when the awaited refresh has settled.
  A promise is named by a number. The state also holds the refreshes that have been
  started and have not settled: the background ones, and the calls suspended at line 297
  together with the \<^verbatim>\<open>now\<close> and \<^verbatim>\<open>cached\<close> they captured.
\<close>

record SuspendedCall =
  call_now :: int
  call_cached :: "AvailabilityCacheEntry option"

record AvailabilitySlot =
  entry :: "AvailabilityCacheEntry option"
  background :: "nat list"
  suspended :: "(nat \<times> SuspendedCall) list"
  nextPromise :: nat
  logged :: "event list"

datatype outcome = Resolved AvailabilityResult | Awaiting nat

definition getAvailability_call :: "int \<Rightarrow> AvailabilitySlot \<Rightarrow> outcome \<times> AvailabilitySlot" where
  "getAvailability_call now s =
     (let awaitRefresh =
            (Awaiting (nextPromise s),
             s\<lparr> suspended := suspended s @ [(nextPromise s, \<lparr> call_now = now, call_cached = entry s \<rparr>)],
                nextPromise := Suc (nextPromise s) \<rparr>)
      in case entry s of
           None \<Rightarrow> awaitRefresh
         | Some cached \<Rightarrow>
             if expiresAt cached > now
             then (Resolved \<lparr> data = cached_value cached, stale = False \<rparr>, s)
             else if revalidatePromise cached \<noteq> None
             then (Resolved \<lparr> data = cached_value cached, stale = True \<rparr>, s)
             else if expiresAt cached \<le> now
             then (Resolved \<lparr> data = cached_value cached, stale = True \<rparr>,
                   s\<lparr> entry := Some \<lparr> cached_value = cached_value cached,
                                      expiresAt = expiresAt cached,
                                      revalidatePromise = Some (nextPromise s) \<rparr>,
                      background := nextPromise s # background s,
                      nextPromise := Suc (nextPromise s) \<rparr>)
             else awaitRefresh)"

text \<open>\<open>completed\<close> is \<^verbatim>\<open>Date.now()\<close> in the \<^verbatim>\<open>then\<close> handler; \<open>net\<close> is what the network did
  for this refresh. The log entries of a refresh are appended when it settles.\<close>

definition backgroundSettled ::
  "platform \<Rightarrow> ServiceConfig \<Rightarrow> nat \<Rightarrow> (nat \<Rightarrow> Attempt) \<Rightarrow> int \<Rightarrow> AvailabilitySlot \<Rightarrow> AvailabilitySlot" where
  "backgroundSettled p config promise net completed s =
     (case refreshAvailability p config net of
        (Inr fresh, evs) \<Rightarrow>
          s\<lparr> entry := Some \<lparr> cached_value = fresh,
                             expiresAt = completed + availabilityTtlMs config,
                             revalidatePromise = None \<rparr>,
             background := removeAll promise (background s),
             logged := logged s @ evs \<rparr>
      | (Inl error, evs) \<Rightarrow>
          s\<lparr> entry := (case entry s of
                         None \<Rightarrow> None
                       | Some e \<Rightarrow> Some (e\<lparr> revalidatePromise := None \<rparr>)),
             background := removeAll promise (background s),
             logged := logged s @ evs @
               [LogError ''Failed to refresh availability'' [(''error'', FErr error)]] \<rparr>)"

definition getAvailability_resume ::
  "platform \<Rightarrow> ServiceConfig \<Rightarrow> SuspendedCall \<Rightarrow> (nat \<Rightarrow> Attempt) \<Rightarrow> AvailabilitySlot \<Rightarrow>
   (thrown + AvailabilityResult) \<times> AvailabilitySlot" where
  "getAvailability_resume p config call net s =
     (case refreshAvailability p config net of
        (Inr fresh, evs) \<Rightarrow>
          (Inr \<lparr> data = fresh, stale = False \<rparr>,
           s\<lparr> entry := Some \<lparr> cached_value = fresh,
                              expiresAt = call_now call + availabilityTtlMs config,
                              revalidatePromise = None \<rparr>,
              logged := logged s @ evs \<rparr>)
      | (Inl error, evs) \<Rightarrow>
          (case call_cached call of
             Some cached \<Rightarrow>
               (Inr \<lparr> data = cached_value cached, stale = True \<rparr>,
                s\<lparr> logged := logged s @ evs @
                     [LogError ''Falling back to stale availability cache'' [(''error'', FErr error)]] \<rparr>)
           | None \<Rightarrow> (Inl error, s\<lparr> logged := logged s @ evs \<rparr>)))"

text \<open>
  What one caller of \<^verbatim>\<open>getAvailability\<close> receives: the call at time \<open>now\<close> in state \<open>s\<close>
  and, if it suspends, its resumption in the state \<open>s'\<close> that the slot has reached when
  its refresh (network \<open>net\<close>) settles.
\<close>

definition getAvailability ::
  "platform \<Rightarrow> ServiceConfig \<Rightarrow> int \<Rightarrow> (nat \<Rightarrow> Attempt) \<Rightarrow> AvailabilitySlot \<Rightarrow> AvailabilitySlot \<Rightarrow>
   thrown + AvailabilityResult" where
  "getAvailability p config now net s s' =
     (case fst (getAvailability_call now s) of
        Resolved r \<Rightarrow> Inr r
      | Awaiting k \<Rightarrow>
          fst (getAvailability_resume p config \<lparr> call_now = now, call_cached = entry s \<rparr> net s'))"

text \<open>The scheduler: calls arrive and started refreshes settle, in any order.\<close>

datatype action =
    Call int
  | BackgroundDone nat "nat \<Rightarrow> Attempt" int
  | CallDone nat "nat \<Rightarrow> Attempt"

fun step :: "platform \<Rightarrow> ServiceConfig \<Rightarrow> AvailabilitySlot \<Rightarrow> action \<Rightarrow> AvailabilitySlot" where
  "step p config s (Call now) = snd (getAvailability_call now s)"
| "step p config s (BackgroundDone promise net completed) =
     (if promise \<in> set (background s) then backgroundSettled p config promise net completed s else s)"
| "step p config s (CallDone k net) =
     (case map_of (suspended s) k of
        None \<Rightarrow> s
      | Some call \<Rightarrow>
          snd (getAvailability_resume p config call net
                 (s\<lparr> suspended := AList.delete k (suspended s) \<rparr>)))"

definition run :: "platform \<Rightarrow> ServiceConfig \<Rightarrow> AvailabilitySlot \<Rightarrow> action list \<Rightarrow> AvailabilitySlot" where
  "run p config s actions = foldl (step p config) s actions"

definition emptySlot :: AvailabilitySlot where
  "emptySlot = \<lparr> entry = None, background = [], suspended = [], nextPromise = 0, logged = [] \<rparr>"

text \<open>The number of calls of \<^verbatim>\<open>refreshAvailability\<close> that have started and not settled.\<close>

definition inFlight :: "AvailabilitySlot \<Rightarrow> nat" where
  "inFlight s = length (background s) + length (suspended s)"

text \<open>The slot holds a snapshot, no call is suspended on a first fetch, and the background
  refreshes that have not settled are exactly the one the entry's handle names, if any.\<close>

definition singleFlight :: "AvailabilitySlot \<Rightarrow> bool" where
  "singleFlight s =
     (suspended s = [] \<and>
      (case entry s of
         None \<Rightarrow> False
       | Some c \<Rightarrow> background s = (case revalidatePromise c of None \<Rightarrow> [] | Some h \<Rightarrow> [h])))"

section \<open>Recommendation ranking (tool.ts, sortRecommendations)\<close>

text \<open>
  The fields of a recommendation that TypeScript types as \<^verbatim>\<open>number\<close> are numbers of the
  runtime, NaN and the infinities included.
\<close>

record FacilityRecommendation =
  rec_id :: string
  rec_name :: string
  rec_lat :: js_number
  rec_lon :: js_number
  freeSpaces :: "js_number option"
  rec_capacity :: "js_number option"
  rec_tariffNote :: "string option"
  rec_zoneCode :: "string option"
  distanceMeters :: js_number
  walkMinutes :: js_number
  rec_lastUpdated :: "string option"
  rec_stale :: bool
  rec_sourceUrl :: string

text \<open>\<^verbatim>\<open>a !== b\<close> on numbers is the negation of \<^verbatim>\<open>a === b\<close>, which is false whenever
  one of them is NaN.\<close>

fun strictEquals :: "js_number \<Rightarrow> js_number \<Rightarrow> bool" where
  "strictEquals NaN b = False"
| "strictEquals a NaN = False"
| "strictEquals a b = (a = b)"

text \<open>
  \<^verbatim>\<open>a - b\<close>. The difference of two finite numbers is rounded and may overflow to an
  infinity, but it is zero only when they are equal and otherwise has the sign of the
  exact difference; the sort reads no more than the sign of what the comparator returns,
  so the exact difference stands for it.
\<close>

fun jsMinus :: "js_number \<Rightarrow> js_number \<Rightarrow> js_number" where
  "jsMinus NaN b = NaN"
| "jsMinus a NaN = NaN"
| "jsMinus (Finite x) (Finite y) = Finite (x - y)"
| "jsMinus (Finite x) PosInfinity = NegInfinity"
| "jsMinus (Finite x) NegInfinity = PosInfinity"
| "jsMinus PosInfinity PosInfinity = NaN"
| "jsMinus PosInfinity b = PosInfinity"
| "jsMinus NegInfinity NegInfinity = NaN"
| "jsMinus NegInfinity b = NegInfinity"

text \<open>The arrow function passed to \<^verbatim>\<open>sort\<close> (tool.ts, lines 92 to 99).\<close>

definition comparator :: "FacilityRecommendation \<Rightarrow> FacilityRecommendation \<Rightarrow> js_number" where
  "comparator a b =
     (if \<not> strictEquals (distanceMeters a) (distanceMeters b)
      then jsMinus (distanceMeters a) (distanceMeters b)
      else
        (let freeA = (case freeSpaces a of None \<Rightarrow> Finite (- 1) | Some f \<Rightarrow> f);
             freeB = (case freeSpaces b of None \<Rightarrow> Finite (- 1) | Some f \<Rightarrow> f)
         in jsMinus freeB freeA))"

text \<open>
  What \<^verbatim>\<open>Array.prototype.sort\<close> reads of the number a comparison function returns:
  negative, zero or positive, with NaN read as \<open>+0\<close>.
\<close>

fun signRead :: "js_number \<Rightarrow> int" where
  "signRead NaN = 0"
| "signRead (Finite x) = (if x < 0 then - 1 else if x = 0 then 0 else 1)"
| "signRead PosInfinity = 1"
| "signRead NegInfinity = - 1"

text \<open>
  \<^verbatim>\<open>Array.prototype.sort\<close> with a comparison function: the element \<open>a\<close> comes before
  \<open>b\<close> when the comparison of \<open>a\<close> with \<open>b\<close> reads negative, and the sort is stable
  (ECMAScript 2019), so elements that compare equal keep their order. For a consistent
  comparison function this fixes the result, whatever algorithm the engine runs; it is
  computed here by insertion from the right. For a comparison function that is not
  consistent the language leaves the order to the engine, and this function is one
  admissible outcome.
\<close>

fun insertBy :: "('a \<Rightarrow> 'a \<Rightarrow> js_number) \<Rightarrow> 'a \<Rightarrow> 'a list \<Rightarrow> 'a list" where
  "insertBy cmp a [] = [a]"
| "insertBy cmp a (b # bs) =
     (if signRead (cmp a b) \<le> 0 then a # b # bs else b # insertBy cmp a bs)"

definition arraySort :: "('a \<Rightarrow> 'a \<Rightarrow> js_number) \<Rightarrow> 'a list \<Rightarrow> 'a list" where
  "arraySort cmp xs = foldr (insertBy cmp) xs []"

text \<open>
  Arrays are objects: \<^verbatim>\<open>sort\<close> reorders the array it is called on and returns the
  same reference, and \<^verbatim>\<open>[...results]\<close> allocates a new array. The heap is the list of
  the arrays allocated so far, and a reference is an index into it.
\<close>

type_synonym heap = "FacilityRecommendation list list"

definition spread :: "heap \<Rightarrow> nat \<Rightarrow> heap \<times> nat" where
  "spread h a = (h @ [h ! a], length h)"

definition sortInPlace ::
  "(FacilityRecommendation \<Rightarrow> FacilityRecommendation \<Rightarrow> js_number) \<Rightarrow> heap \<Rightarrow> nat \<Rightarrow> heap \<times> nat" where
  "sortInPlace cmp h a = (h[a := arraySort cmp (h ! a)], a)"

definition sortRecommendations :: "heap \<Rightarrow> nat \<Rightarrow> heap \<times> nat" where
  "sortRecommendations h results =
     (case spread h results of (h1, copy) \<Rightarrow> sortInPlace comparator h1 copy)"

text \<open>
  The order that the ranking is to establish, in the words of the specification: distance
  ascending and, at equal distance, free spaces descending, a null count standing for
  \<open>-1\<close>. It is written with the order of the numbers, in which NaN is neither below nor
  above any number, and not with the operations that the comparator runs.
\<close>

fun numberLess :: "js_number \<Rightarrow> js_number \<Rightarrow> bool" where
  "numberLess NaN b = False"
| "numberLess a NaN = False"
| "numberLess (Finite x) (Finite y) = (x < y)"
| "numberLess (Finite x) PosInfinity = True"
| "numberLess (Finite x) NegInfinity = False"
| "numberLess PosInfinity b = False"
| "numberLess NegInfinity NegInfinity = False"
| "numberLess NegInfinity b = True"

definition rankedBefore :: "FacilityRecommendation \<Rightarrow> FacilityRecommendation \<Rightarrow> bool" where
  "rankedBefore a b =
     (numberLess (distanceMeters a) (distanceMeters b) \<or>
      (distanceMeters a = distanceMeters b \<and>
       (let freeA = (case freeSpaces a of None \<Rightarrow> Finite (- 1) | Some f \<Rightarrow> f);
            freeB = (case freeSpaces b of None \<Rightarrow> Finite (- 1) | Some f \<Rightarrow> f)
        in numberLess freeB freeA \<or> freeB = freeA)))"

text \<open>The helper of test/rank.test.ts that builds a recommendation from its id, distance
  and free spaces.\<close>

definition recommendation :: "string \<Rightarrow> js_number \<Rightarrow> js_number option \<Rightarrow> FacilityRecommendation" where
  "recommendation rid meters free =
     \<lparr> rec_id = rid, rec_name = ''Facility'', rec_lat = Finite 0, rec_lon = Finite 0,
       freeSpaces = free, rec_capacity = None, rec_tariffNote = None, rec_zoneCode = None,
       distanceMeters = meters, walkMinutes = Finite 0, rec_lastUpdated = None,
       rec_stale = False, rec_sourceUrl = ''https://example.com'' \<rparr>"

section \<open>Example inputs\<close>

text \<open>An attempt at which the upstream answers with the given status, body text and
  parsed body, and the external signal has not fired.\<close>

definition respond :: "int \<Rightarrow> string \<Rightarrow> json \<Rightarrow> Attempt" where
  "respond st body v =
     \<lparr> fetched = Inr \<lparr> resp_status = st, resp_text = Inr body, resp_json = Inr v \<rparr>,
       externalAborted = None \<rparr>"

text \<open>A platform and a configuration for the closed examples. None of the examples prints
  or parses a number, so the two conversions are placeholders; URLs are built by
  concatenation.\<close>

definition examplePlatform :: platform where
  "examplePlatform =
     \<lparr> finiteToString = (\<lambda>q. ''0''), stringToNumber = (\<lambda>s. NaN),
       newURL = (\<lambda>path base. Some (base @ path)) \<rparr>"

definition exampleConfig :: ServiceConfig where
  "exampleConfig =
     \<lparr> port = 3000, baseUrl = ''https://sp.example'', facilitiesPath = ''/facilities'',
       availabilityPath = ''/availability'', requestTimeoutMs = 3000,
       availabilityTtlMs = 30000, facilitiesTtlMs = 86400000, overallTimeoutMs = 8000 \<rparr>"

text \<open>An availability snapshot, a slot that holds it with expiry time 10 and no refresh in
  flight, an upstream that serves a newer snapshot, and one that answers 500 throughout.\<close>

definition snapshot :: availability where
  "snapshot = [(''p1'', \<lparr> avail_id = ''p1'', avail_freeSpaces = Some (Finite 3),
                         avail_capacity = None, avail_lastUpdated = None \<rparr>)]"

definition staleSlot :: AvailabilitySlot where
  "staleSlot =
     \<lparr> entry = Some \<lparr> cached_value = snapshot, expiresAt = 10, revalidatePromise = None \<rparr>,
       background = [], suspended = [], nextPromise = 0, logged = [] \<rparr>"

definition netAvailable :: "nat \<Rightarrow> Attempt" where
  "netAvailable = (\<lambda>n. respond 200 []
      (JArr [JObj [(''id'', JStr ''p1''), (''freeSpaces'', JNum (Finite 7))]]))"

definition netDown :: "nat \<Rightarrow> Attempt" where
  "netDown = (\<lambda>n. respond 500 ''down'' JNull)"




text \<open>Facility records as the upstream may send them: a well-formed one, one without any
  latitude, and \<^verbatim>\<open>{"id": {"toString": null}, "name": "P", "lat": 59, "lon": 18}\<close>, whose
  id is an object that owns a key \<^verbatim>\<open>toString\<close>.\<close>

definition wellFormedRecord :: json where
  "wellFormedRecord =
     JObj [(''id'', JStr ''p2''), (''name'', JStr ''Q''),
           (''lat'', JNum (Finite 59)), (''lon'', JNum (Finite 18))]"

definition recordWithoutLatitude :: json where
  "recordWithoutLatitude =
     JObj [(''id'', JStr ''p3''), (''name'', JStr ''R''), (''lon'', JNum (Finite 18))]"

definition recordWithObjectId :: json where
  "recordWithObjectId =
     JObj [(''id'', JObj [(''toString'', JNull)]), (''name'', JStr ''P''),
           (''lat'', JNum (Finite 59)), (''lon'', JNum (Finite 18))]"

section \<open>Properties of the Retrying Fetcher\<close>

lemma tryBlock_Continue: "tryBlock a n = Continue s \<Longrightarrow> n < MAX_ATTEMPTS"
  by (auto simp: tryBlock_def split: sum.splits if_splits)

text \<open>One iteration of the loop, with the pair of the recursive call taken apart.\<close>

lemma fetchLoop_step:
  "attempt \<le> MAX_ATTEMPTS \<Longrightarrow>
   fetchLoop url net attempt le =
     (case tryBlock (net attempt) attempt of
        Return v \<Rightarrow> (Inr v, [Fetch url attempt])
      | Continue st \<Rightarrow>
          (fst (fetchLoop url net (attempt + 1) le),
           [Fetch url attempt,
            LogInfo ''Retrying upstream request''
              [(''attempt'', FNum (int attempt)), (''status'', FNum st),
               (''url'', FStr url), (''delay'', FNum (int (backoff attempt)))],
            Sleep (backoff attempt)] @ snd (fetchLoop url net (attempt + 1) le))
      | Throw error \<Rightarrow>
          (case externalAborted (net attempt) of
             Some reason \<Rightarrow> (Inl (abortReason reason), [Fetch url attempt])
           | None \<Rightarrow>
               if attempt \<ge> MAX_ATTEMPTS
               then (Inl (surfaced url (Some error)), [Fetch url attempt])
               else
                 (fst (fetchLoop url net (attempt + 1) (Some error)),
                  [Fetch url attempt,
                   LogInfo ''Retrying upstream request after error''
                     [(''attempt'', FNum (int attempt)), (''url'', FStr url),
                      (''delay'', FNum (int (backoff attempt))), (''error'', FErr error)],
                   Sleep (backoff attempt)] @ snd (fetchLoop url net (attempt + 1) (Some error)))))"
  by (subst fetchLoop.simps) (simp add: case_prod_beta split: completion.splits option.splits)

text \<open>The third iteration never continues, so it does not read \<^verbatim>\<open>lastError\<close>.\<close>

lemma fetchLoop_last:
  "fetchLoop url net 3 le =
     (case tryBlock (net 3) 3 of
        Return v \<Rightarrow> (Inr v, [Fetch url 3])
      | Continue s \<Rightarrow> (Inl TypeError, [])
      | Throw e \<Rightarrow>
          (case externalAborted (net 3) of
             Some reason \<Rightarrow> (Inl (abortReason reason), [Fetch url 3])
           | None \<Rightarrow> (Inl (surfaced url (Some e)), [Fetch url 3])))"
  using tryBlock_Continue [of "net 3" 3]
  by (subst fetchLoop.simps) (auto simp: MAX_ATTEMPTS_def split: completion.splits option.splits)

lemma two_le_MAX: "(2::nat) \<le> MAX_ATTEMPTS"
  by (simp add: MAX_ATTEMPTS_def)

lemma one_le_MAX: "(1::nat) \<le> MAX_ATTEMPTS"
  by (simp add: MAX_ATTEMPTS_def)












text \<open>
  C1. A 404 is not in \<^verbatim>\<open>RETRY_STATUS_CODES\<close>, yet the call does not fail at the first
  attempt: the error built for the response is thrown inside the try block, the catch
  block takes it for a transport failure, and the request is repeated after 200 and after
  400 milliseconds. Against an upstream that answers 404 three times the third error is
  surfaced; against one that answers 404 and then 200 the call succeeds.
\<close>

theorem fetchWithRetries_retries_status_404:
  "fetchWithRetries url (\<lambda>n. respond 404 body JNull) =
     (Inl (RequestFailed 404 body),
      [Fetch url 1,
       LogInfo ''Retrying upstream request after error''
         [(''attempt'', FNum 1), (''url'', FStr url), (''delay'', FNum 200),
          (''error'', FErr (RequestFailed 404 body))],
       Sleep 200,
       Fetch url 2,
       LogInfo ''Retrying upstream request after error''
         [(''attempt'', FNum 2), (''url'', FStr url), (''delay'', FNum 400),
          (''error'', FErr (RequestFailed 404 body))],
       Sleep 400,
       Fetch url 3]) \<and>
   fst (fetchWithRetries url (\<lambda>n. if n = 1 then respond 404 body JNull else respond 200 [] v)) = Inr v"
  unfolding fetchWithRetries_def fetchLoop_step [OF one_le_MAX] one_add_one
  by (simp add: fetchLoop_step [OF two_le_MAX] fetchLoop_last tryBlock_def respond_def ok_def
        RETRY_STATUS_CODES_def MAX_ATTEMPTS_def backoff_def)

section \<open>Properties of the Response Normalizer\<close>

text \<open>
  C5. A record whose only latitude field is \<^verbatim>\<open>"lat": null\<close> is dropped, but a record
  whose only latitude field is \<^verbatim>\<open>"Latitude": null\<close> is returned with latitude 0: the
  chain \<^verbatim>\<open>raw.lat ?? raw.latitude ?? raw.Latitude\<close> yields \<^verbatim>\<open>null\<close> when its last
  operand is \<^verbatim>\<open>null\<close>, the tests \<^verbatim>\<open>latValue === undefined\<close> let \<^verbatim>\<open>null\<close> pass, and
  \<^verbatim>\<open>Number(null)\<close> is 0. The same record with a latitude nested under \<^verbatim>\<open>position\<close>
  is returned with latitude 0 as well, the nested value never being read.
\<close>

theorem normalizeFacilityMetadata_null_Latitude:
  "normalizeFacilityMetadata p
     (JObj [(''id'', JStr ''p1''), (''name'', JStr ''P''), (''lat'', JNull),
            (''lon'', JNum (Finite 18))]) config = Inr None \<and>
   normalizeFacilityMetadata p
     (JObj [(''id'', JStr ''p1''), (''name'', JStr ''P''), (''Latitude'', JNull),
            (''lon'', JNum (Finite 18))]) config =
     Inr (Some \<lparr> meta_id = ''p1'', meta_name = ''P'', meta_lat = Finite 0, meta_lon = Finite 18,
                 meta_capacity = None, meta_tariffNote = None, meta_zoneCode = None,
                 meta_sourceUrl = baseUrl config @ facilitiesPath config \<rparr>) \<and>
   normalizeFacilityMetadata p
     (JObj [(''id'', JStr ''p1''), (''name'', JStr ''P''), (''Latitude'', JNull),
            (''position'', JObj [(''lat'', JNum (Finite 59))]),
            (''lon'', JNum (Finite 18))]) config =
     Inr (Some \<lparr> meta_id = ''p1'', meta_name = ''P'', meta_lat = Finite 0, meta_lon = Finite 18,
                 meta_capacity = None, meta_tariffNote = None, meta_zoneCode = None,
                 meta_sourceUrl = baseUrl config @ facilitiesPath config \<rparr>)"
  by (simp add: normalizeFacilityMetadata_def latValue_def lonValue_def andThen_def)

theorem normalizeFacilityMetadata_null_Latitude_witness:
  "normalizeFacilityMetadata examplePlatform
     (JObj [(''id'', JStr ''p1''), (''name'', JStr ''P''), (''Latitude'', JNull),
            (''lon'', JNum (Finite 18))]) exampleConfig =
     Inr (Some \<lparr> meta_id = ''p1'', meta_name = ''P'', meta_lat = Finite 0, meta_lon = Finite 18,
                 meta_capacity = None, meta_tariffNote = None, meta_zoneCode = None,
                 meta_sourceUrl = ''https://sp.example/facilities'' \<rparr>)"
  using normalizeFacilityMetadata_null_Latitude [of examplePlatform exampleConfig]
  by (simp add: exampleConfig_def)

text \<open>
  C8. The normalizers are not total on JSON input: \<^verbatim>\<open>String(v)\<close> and \<^verbatim>\<open>Number(v)\<close>
  throw a TypeError on an object that owns a key \<^verbatim>\<open>toString\<close>, and neither normalizer
  catches it. \<^verbatim>\<open>normalizeFacilityMetadata\<close> throws on
  \<^verbatim>\<open>{"id": {"toString": null}, "name": "P", "lat": 59, "lon": 18}\<close> and
  \<^verbatim>\<open>normalizeAvailability\<close> on \<^verbatim>\<open>{"id": "p1", "freeSpaces": {"toString": null}}\<close>.
\<close>

theorem normalizers_throw_TypeError:
  "normalizeFacilityMetadata p recordWithObjectId config = Inl TypeError \<and>
   normalizeAvailability p
     (JObj [(''id'', JStr ''p1''), (''freeSpaces'', JObj [(''toString'', JNull)])]) =
     Inl TypeError"
  by (simp add: normalizeFacilityMetadata_def normalizeAvailability_def recordWithObjectId_def
        latValue_def lonValue_def andThen_def)

theorem normalizers_throw_TypeError_witness:
  "normalizeFacilityMetadata examplePlatform recordWithObjectId exampleConfig = Inl TypeError \<and>
   normalizeAvailability examplePlatform
     (JObj [(''id'', JStr ''p1''), (''freeSpaces'', JObj [(''toString'', JNull)])]) =
     Inl TypeError"
  using normalizers_throw_TypeError [of examplePlatform exampleConfig]
  by simp

text \<open>A read of a property throws on \<^verbatim>\<open>null\<close> and \<^verbatim>\<open>undefined\<close>, which the parameter
  type of the normalizers excludes and both callers filter out. These are the only ways
  in which the normalizers throw: on a record that is neither, and none of whose fields,
  nor the fields of its position object, is a value on which the coercions throw, both
  return a record or none.\<close>

lemma joinElements_total:
  "(\<And>x. x \<in> set xs \<Longrightarrow> \<exists>s. toStringJS p x = Inr s) \<Longrightarrow> \<exists>s. joinElements p xs = Inr s"
proof (induction xs)
  case Nil
  then show ?case by simp
next
  case (Cons x xs)
  have "\<exists>s. toStringJS p x = Inr s" using Cons.prems by simp
  then obtain s where s:
    "(case x of JUndefined \<Rightarrow> Inr [] | JNull \<Rightarrow> Inr [] | _ \<Rightarrow> toStringJS p x) = Inr s"
    by (cases x) auto
  obtain r where r: "joinElements p xs = Inr r"
    using Cons by auto
  show ?case
    using s r by (cases xs) simp_all
qed

lemma toStringJS_total: "\<not> ownsToString v \<Longrightarrow> \<exists>s. toStringJS p v = Inr s"
proof (induction v)
  case (JArr xs)
  then show ?case by (auto intro: joinElements_total)
qed auto

lemma toNumberJS_total: "\<not> ownsToString v \<Longrightarrow> \<exists>n. toNumberJS p v = Inr n"
  using toStringJS_total [of v p]
  by (cases v) (auto split: sum.splits)

lemma toNumberOrNull_total: "\<not> ownsToString v \<Longrightarrow> \<exists>n. toNumberOrNull p v = Inr n"
  using toNumberJS_total [of v p]
  by (cases v) (auto split: sum.splits)

lemma toStringOrNull_total: "\<not> ownsToString v \<Longrightarrow> \<exists>n. toStringOrNull p v = Inr n"
  using toStringJS_total [of v p]
  by (cases v) (auto split: sum.splits)

lemma getProp_total: "raw \<noteq> JNull \<Longrightarrow> raw \<noteq> JUndefined \<Longrightarrow> \<exists>v. getProp raw k = Inr v"
  by (cases raw) simp_all

lemma firstOf_safe:
  assumes readable: "raw \<noteq> JNull" "raw \<noteq> JUndefined"
    and fields: "\<And>k v. getProp raw k = Inr v \<Longrightarrow> \<not> ownsToString v"
  shows "\<exists>v. firstOf raw ks = Inr v \<and> \<not> ownsToString v"
proof (induction ks rule: induct_list012)
  case 1
  show ?case by simp
next
  case (2 k)
  show ?case using getProp_total [OF readable, of k] fields by auto
next
  case (3 k k' ks)
  obtain v where v: "getProp raw k = Inr v"
    using getProp_total [OF readable] by blast
  show ?case
    using v fields [OF v] "3.IH"(2) by (cases v) simp_all
qed

lemma latValue_safe:
  assumes readable: "raw \<noteq> JNull" "raw \<noteq> JUndefined"
    and fields: "\<And>k v. getProp raw k = Inr v \<Longrightarrow> \<not> ownsToString v"
    and nested: "\<And>k v. getProp positionValue k = Inr v \<Longrightarrow> \<not> ownsToString v"
  shows "\<exists>v. latValue raw positionValue = Inr v \<and> \<not> ownsToString v"
    and "\<exists>v. lonValue raw positionValue = Inr v \<and> \<not> ownsToString v"
proof -
  have outer: "\<exists>v. firstOf raw ks = Inr v \<and> \<not> ownsToString v" for ks
    using readable fields by (rule firstOf_safe)
  have inner: "\<exists>v. firstOf positionValue ks = Inr v \<and> \<not> ownsToString v"
    if "isObject positionValue" for ks
  proof (rule firstOf_safe)
    show "positionValue \<noteq> JNull" "positionValue \<noteq> JUndefined" using that by auto
  qed (rule nested)
  show "\<exists>v. latValue raw positionValue = Inr v \<and> \<not> ownsToString v"
    using outer [of "[''lat'', ''latitude'', ''Latitude'']"]
      inner [of "[''lat'', ''Lat'', ''latitude'', ''Latitude'']"]
    by (auto simp: latValue_def andThen_def simp del: firstOf.simps)
  show "\<exists>v. lonValue raw positionValue = Inr v \<and> \<not> ownsToString v"
    using outer [of "[''lon'', ''longitude'', ''Longitude'']"]
      inner [of "[''lon'', ''Lon'', ''longitude'', ''Longitude'']"]
    by (auto simp: lonValue_def andThen_def simp del: firstOf.simps)
qed

lemma nullish_safe: "\<not> ownsToString a \<Longrightarrow> \<not> ownsToString b \<Longrightarrow> \<not> ownsToString (nullish a b)"
  by (cases a) auto

lemma read_number_total:
  assumes readable: "raw \<noteq> JNull" "raw \<noteq> JUndefined"
    and fields: "\<And>k v. getProp raw k = Inr v \<Longrightarrow> \<not> ownsToString v"
  shows "\<exists>n. andThen (firstOf raw ks) (toNumberOrNull p) = Inr n"
proof -
  obtain v where "firstOf raw ks = Inr v" "\<not> ownsToString v"
    using firstOf_safe [where raw = raw and ks = ks] readable fields by blast
  then show ?thesis
    using toNumberOrNull_total [of v p] by (simp add: andThen_def)
qed

lemma read_string_total:
  assumes readable: "raw \<noteq> JNull" "raw \<noteq> JUndefined"
    and fields: "\<And>k v. getProp raw k = Inr v \<Longrightarrow> \<not> ownsToString v"
  shows "\<exists>n. andThen (firstOf raw ks) (toStringOrNull p) = Inr n"
proof -
  obtain v where "firstOf raw ks = Inr v" "\<not> ownsToString v"
    using firstOf_safe [where raw = raw and ks = ks] readable fields by blast
  then show ?thesis
    using toStringOrNull_total [of v p] by (simp add: andThen_def)
qed

lemma read_string_default_total:
  assumes readable: "raw \<noteq> JNull" "raw \<noteq> JUndefined"
    and fields: "\<And>k v. getProp raw k = Inr v \<Longrightarrow> \<not> ownsToString v"
  shows "\<exists>n. andThen (firstOf raw ks) (\<lambda>v. toStringOrNull p (nullish v (JStr d))) = Inr n"
proof -
  obtain v where "firstOf raw ks = Inr v" "\<not> ownsToString v"
    using firstOf_safe [where raw = raw and ks = ks] readable fields by blast
  then show ?thesis
    using toStringOrNull_total [of "nullish v (JStr d)" p] nullish_safe [of v "JStr d"]
    by (simp add: andThen_def)
qed

lemma normalizeAvailability_total:
  assumes readable: "raw \<noteq> JNull" "raw \<noteq> JUndefined"
    and fields: "\<And>k v. getProp raw k = Inr v \<Longrightarrow> \<not> ownsToString v"
  shows "\<exists>r. normalizeAvailability p raw = Inr r"
proof -
  obtain idValue where idValue:
    "firstOf raw [''id'', ''Id'', ''facilityId'', ''FacilityId''] = Inr idValue"
    "\<not> ownsToString idValue"
    using firstOf_safe [where raw = raw] readable fields by blast
  obtain freeSpaces where freeSpaces:
    "andThen (firstOf raw [''freeSpaces'', ''FreeSpaces'', ''vacant'', ''Vacant''])
       (toNumberOrNull p) = Inr freeSpaces"
    using read_number_total [where raw = raw] readable fields by blast
  obtain capacity where capacity:
    "andThen (firstOf raw [''capacity'', ''Capacity'']) (toNumberOrNull p) = Inr capacity"
    using read_number_total [where raw = raw] readable fields by blast
  obtain lastUpdated where lastUpdated:
    "andThen (firstOf raw [''lastUpdated'', ''LastUpdated'', ''updatedAt'',
                           ''UpdatedAt'', ''timestamp'', ''Timestamp''])
       (toStringOrNull p) = Inr lastUpdated"
    using read_string_total [where raw = raw] readable fields by blast
  obtain idStr where idStr: "toStringJS p idValue = Inr idStr"
    using toStringJS_total [OF idValue(2)] by blast
  show ?thesis
    unfolding normalizeAvailability_def idValue(1) freeSpaces capacity lastUpdated
    by (simp add: andThen_def idStr)
qed

lemma normalizeFacilityMetadata_total:
  assumes readable: "raw \<noteq> JNull" "raw \<noteq> JUndefined"
    and fields: "\<And>k v. getProp raw k = Inr v \<Longrightarrow> \<not> ownsToString v"
    and nested: "\<And>position k v. getProp raw ''position'' = Inr position \<or>
                     getProp raw ''Position'' = Inr position \<Longrightarrow>
                   getProp position k = Inr v \<Longrightarrow> \<not> ownsToString v"
  shows "\<exists>r. normalizeFacilityMetadata p raw config = Inr r"
proof -
  obtain idValue where idValue:
    "firstOf raw [''id'', ''Id'', ''facilityId'', ''FacilityId''] = Inr idValue"
    "\<not> ownsToString idValue"
    using firstOf_safe [where raw = raw] readable fields by blast
  obtain nameValue where nameValue:
    "firstOf raw [''name'', ''Name'', ''siteName'', ''SiteName''] = Inr nameValue"
    "\<not> ownsToString nameValue"
    using firstOf_safe [where raw = raw] readable fields by blast
  obtain positionValue where positionValue:
    "firstOf raw [''position'', ''Position''] = Inr positionValue"
    using firstOf_safe [where raw = raw] readable fields by blast
  have "getProp raw ''position'' = Inr positionValue \<or>
        getProp raw ''Position'' = Inr positionValue"
    using positionValue
    by (auto split: sum.splits json.splits)
  then have inside: "\<And>k v. getProp positionValue k = Inr v \<Longrightarrow> \<not> ownsToString v"
    using nested by blast
  obtain latV where latV: "latValue raw positionValue = Inr latV" "\<not> ownsToString latV"
    using latValue_safe(1) [where raw = raw and positionValue = positionValue]
      readable fields inside by blast
  obtain lonV where lonV: "lonValue raw positionValue = Inr lonV" "\<not> ownsToString lonV"
    using latValue_safe(2) [where raw = raw and positionValue = positionValue]
      readable fields inside by blast
  obtain lat where lat: "toNumberJS p latV = Inr lat"
    using toNumberJS_total [OF latV(2)] by blast
  obtain lon where lon: "toNumberJS p lonV = Inr lon"
    using toNumberJS_total [OF lonV(2)] by blast
  obtain capacity where capacity:
    "andThen (firstOf raw [''capacity'', ''Capacity'']) (toNumberOrNull p) = Inr capacity"
    using read_number_total [where raw = raw] readable fields by blast
  obtain tariffNote where tariffNote:
    "andThen (firstOf raw [''tariffNote'', ''TariffNote'']) (toStringOrNull p) = Inr tariffNote"
    using read_string_total [where raw = raw] readable fields by blast
  obtain zoneCode where zoneCode:
    "andThen (firstOf raw [''zoneCode'', ''ZoneCode'']) (toStringOrNull p) = Inr zoneCode"
    using read_string_total [where raw = raw] readable fields by blast
  obtain src where src:
    "andThen (firstOf raw [''sourceUrl'', ''SourceUrl'', ''url'', ''Url''])
       (\<lambda>v. toStringOrNull p (nullish v (JStr (baseUrl config @ facilitiesPath config))))
     = Inr src"
    using read_string_default_total [where raw = raw] readable fields by blast
  obtain idStr where idStr: "toStringJS p idValue = Inr idStr"
    using toStringJS_total [OF idValue(2)] by blast
  obtain nameStr where nameStr: "toStringJS p nameValue = Inr nameStr"
    using toStringJS_total [OF nameValue(2)] by blast
  show ?thesis
    unfolding normalizeFacilityMetadata_def idValue(1) nameValue(1) positionValue
      capacity tariffNote zoneCode src
    by (simp add: andThen_def idStr nameStr lat lon latV(1) lonV(1))
qed

section \<open>Properties of the Facility Cache\<close>

lemma mapThenDropNull_no_throw:
  "\<forall>x \<in> set xs. \<exists>r. f x = Inr r \<Longrightarrow>
   mapThenDropNull f xs =
     Inr (List.map_filter (\<lambda>x. case f x of Inl e \<Rightarrow> None | Inr r \<Rightarrow> r) xs)"
  by (induction xs) (auto simp: andThen_def List.map_filter_simps split: option.splits)

text \<open>A live entry is returned as it is, with no request.\<close>

lemma getFacilities_fresh:
  "cache = Some c \<Longrightarrow> now < expiresAt c \<Longrightarrow>
   getFacilities p config now net cache = (Inr (cached_value c), cache, [])"
  by (simp add: getFacilities_def)

text \<open>Without a live entry the call fetches; a fetch error and a body that is not an array
  are thrown and leave the slot as it was; an array whose records all normalize without
  throwing is stored with \<open>expiresAt = now + facilitiesTtlMs\<close> and returned.\<close>

lemma getFacilities_refresh:
  assumes expired: "case cache of None \<Rightarrow> True | Some c \<Rightarrow> expiresAt c \<le> now"
    and url: "newURL p (facilitiesPath config) (baseUrl config) = Some url"
  shows "getFacilities p config now net cache =
     (case fetchWithRetries url net of
        (Inl e, evs) \<Rightarrow> (Inl e, cache, evs)
      | (Inr (JArr items), evs) \<Rightarrow>
          (case mapThenDropNull (\<lambda>item. normalizeFacilityMetadata p item config)
                  (filter isObject items) of
             Inl e \<Rightarrow> (Inl e, cache, evs)
           | Inr facilities \<Rightarrow>
               (Inr facilities,
                Some \<lparr> cached_value = facilities, expiresAt = now + facilitiesTtlMs config \<rparr>,
                evs @ [LogInfo ''Loaded facilities metadata''
                         [(''count'', FNum (int (length facilities)))]]))
      | (Inr other, evs) \<Rightarrow>
          (Inl (NotAnArray ''Facilities response is not an array''), cache, evs))"
  using expired url
  by (cases cache)
     (auto simp: getFacilities_def buildUrl_def split: prod.splits sum.splits json.splits)

text \<open>A record without any latitude is dropped and its well-formed neighbour is kept.\<close>

lemma getFacilities_drops_record_without_latitude:
  "getFacilities examplePlatform exampleConfig 1000
     (\<lambda>n. respond 200 [] (JArr [recordWithoutLatitude, wellFormedRecord])) None =
   (Inr [\<lparr> meta_id = ''p2'', meta_name = ''Q'', meta_lat = Finite 59, meta_lon = Finite 18,
           meta_capacity = None, meta_tariffNote = None, meta_zoneCode = None,
           meta_sourceUrl = ''https://sp.example/facilities'' \<rparr>],
    Some \<lparr> cached_value =
             [\<lparr> meta_id = ''p2'', meta_name = ''Q'', meta_lat = Finite 59, meta_lon = Finite 18,
                meta_capacity = None, meta_tariffNote = None, meta_zoneCode = None,
                meta_sourceUrl = ''https://sp.example/facilities'' \<rparr>],
           expiresAt = 86401000 \<rparr>,
    [Fetch ''https://sp.example/facilities'' 1,
     LogInfo ''Loaded facilities metadata'' [(''count'', FNum 1)]])"
  unfolding getFacilities_def buildUrl_def fetchWithRetries_def
    fetchLoop_step [OF one_le_MAX] one_add_one
  by (simp add: examplePlatform_def exampleConfig_def tryBlock_def respond_def ok_def
        recordWithoutLatitude_def wellFormedRecord_def normalizeFacilityMetadata_def
        latValue_def lonValue_def andThen_def)

text \<open>
  C7. With an empty slot and an upstream that answers 200 with the array of
  \<open>recordWithObjectId\<close> and \<open>wellFormedRecord\<close>, \<^verbatim>\<open>getFacilities\<close> does not skip the
  record that fails normalization: the TypeError thrown for it leaves
  \<^verbatim>\<open>rawData.map(...)\<close>, the promise is rejected, and nothing is stored, the well-formed
  record included.
\<close>

theorem getFacilities_rejects_whole_batch:
  "getFacilities (p\<lparr> newURL := (\<lambda>path base. Some (base @ path)) \<rparr>) config now
     (\<lambda>n. respond 200 [] (JArr [recordWithObjectId, wellFormedRecord])) None =
   (Inl TypeError, None, [Fetch (baseUrl config @ facilitiesPath config) 1])"
  unfolding getFacilities_def buildUrl_def fetchWithRetries_def
    fetchLoop_step [OF one_le_MAX] one_add_one
  by (simp add: tryBlock_def respond_def ok_def recordWithObjectId_def wellFormedRecord_def
        normalizeFacilityMetadata_def latValue_def lonValue_def andThen_def)

section \<open>Properties of the Availability Cache\<close>

text \<open>The four ways in which the synchronous part of a call ends.\<close>

lemma call_fresh:
  "entry s = Some c \<Longrightarrow> now < expiresAt c \<Longrightarrow>
   getAvailability_call now s = (Resolved \<lparr> data = cached_value c, stale = False \<rparr>, s)"
  by (simp add: getAvailability_call_def)

lemma call_marked:
  "entry s = Some c \<Longrightarrow> expiresAt c \<le> now \<Longrightarrow> revalidatePromise c = Some h \<Longrightarrow>
   getAvailability_call now s = (Resolved \<lparr> data = cached_value c, stale = True \<rparr>, s)"
  by (simp add: getAvailability_call_def)

lemma call_expired:
  "entry s = Some c \<Longrightarrow> expiresAt c \<le> now \<Longrightarrow> revalidatePromise c = None \<Longrightarrow>
   getAvailability_call now s =
     (Resolved \<lparr> data = cached_value c, stale = True \<rparr>,
      s\<lparr> entry := Some (c\<lparr> revalidatePromise := Some (nextPromise s) \<rparr>),
         background := nextPromise s # background s,
         nextPromise := Suc (nextPromise s) \<rparr>)"
  by (simp add: getAvailability_call_def)

lemma call_empty:
  "entry s = None \<Longrightarrow>
   getAvailability_call now s =
     (Awaiting (nextPromise s),
      s\<lparr> suspended := suspended s @ [(nextPromise s, \<lparr> call_now = now, call_cached = None \<rparr>)],
         nextPromise := Suc (nextPromise s) \<rparr>)"
  by (simp add: getAvailability_call_def)

text \<open>The handlers of a background refresh.\<close>

lemma settled_ok:
  "refreshAvailability p config net = (Inr fresh, evs) \<Longrightarrow>
   backgroundSettled p config promise net completed s =
     s\<lparr> entry := Some \<lparr> cached_value = fresh,
                        expiresAt = completed + availabilityTtlMs config,
                        revalidatePromise = None \<rparr>,
        background := removeAll promise (background s),
        logged := logged s @ evs \<rparr>"
  by (simp add: backgroundSettled_def)

lemma settled_failed:
  "refreshAvailability p config net = (Inl e, evs) \<Longrightarrow>
   backgroundSettled p config promise net completed s =
     s\<lparr> entry := (case entry s of None \<Rightarrow> None | Some c \<Rightarrow> Some (c\<lparr> revalidatePromise := None \<rparr>)),
        background := removeAll promise (background s),
        logged := logged s @ evs @
          [LogError ''Failed to refresh availability'' [(''error'', FErr e)]] \<rparr>"
  by (simp add: backgroundSettled_def)

text \<open>The example upstreams.\<close>

lemma refresh_netAvailable:
  "refreshAvailability examplePlatform exampleConfig netAvailable =
     (Inr [(''p1'', \<lparr> avail_id = ''p1'', avail_freeSpaces = Some (Finite 7),
                      avail_capacity = None, avail_lastUpdated = None \<rparr>)],
      [Fetch ''https://sp.example/availability'' 1])"
  unfolding refreshAvailability_def buildUrl_def fetchWithRetries_def
    fetchLoop_step [OF one_le_MAX] one_add_one
  by (simp add: examplePlatform_def exampleConfig_def netAvailable_def respond_def tryBlock_def
        ok_def normalizeAvailability_def andThen_def)

lemma refresh_netDown:
  "fst (refreshAvailability examplePlatform exampleConfig netDown) = Inl (RequestFailed 500 ''down'')"
  unfolding refreshAvailability_def buildUrl_def fetchWithRetries_def
    fetchLoop_step [OF one_le_MAX] one_add_one
  by (simp add: examplePlatform_def exampleConfig_def netDown_def respond_def tryBlock_def
        ok_def fetchLoop_step [OF two_le_MAX] fetchLoop_last RETRY_STATUS_CODES_def MAX_ATTEMPTS_def)

lemma exampleConfig_ttl: "availabilityTtlMs exampleConfig = 30000"
  by (simp add: exampleConfig_def)

text \<open>
  C4. With a live entry the call returns its value with \<open>stale = False\<close> and leaves the
  state as it is: nothing is started. With an expired entry without a handle it returns
  the old value with \<open>stale = True\<close> at once, starts one background refresh, and marks
  the entry with the handle of that refresh, value and expiry time unchanged. When the
  refresh succeeds at time \<open>completed\<close> the entry becomes the new snapshot with
  \<open>expiresAt = completed + availabilityTtlMs\<close> and no handle, and calls before that time
  are served from it as live. When it fails the entry is the old one again, without a
  handle, and the next call at or after its expiry time starts a new refresh.
\<close>

theorem getAvailability_stale_while_revalidate:
  "(\<forall>c. entry s = Some c \<and> now < expiresAt c \<longrightarrow>
        getAvailability_call now s = (Resolved \<lparr> data = cached_value c, stale = False \<rparr>, s)) \<and>
   (\<forall>c. entry s = Some c \<and> expiresAt c \<le> now \<and> revalidatePromise c = None \<longrightarrow>
        (case getAvailability_call now s of
           (r, s1) \<Rightarrow>
             r = Resolved \<lparr> data = cached_value c, stale = True \<rparr> \<and>
             entry s1 = Some (c\<lparr> revalidatePromise := Some (nextPromise s) \<rparr>) \<and>
             background s1 = nextPromise s # background s \<and>
             suspended s1 = suspended s \<and>
             (\<forall>fresh evs. refreshAvailability p config net = (Inr fresh, evs) \<longrightarrow>
                (let s2 = backgroundSettled p config (nextPromise s) net completed s1
                 in entry s2 = Some \<lparr> cached_value = fresh,
                                      expiresAt = completed + availabilityTtlMs config,
                                      revalidatePromise = None \<rparr> \<and>
                    background s2 = removeAll (nextPromise s) (background s1) \<and>
                    (\<forall>later. later < completed + availabilityTtlMs config \<longrightarrow>
                       getAvailability_call later s2 =
                         (Resolved \<lparr> data = fresh, stale = False \<rparr>, s2)))) \<and>
             (\<forall>e evs. refreshAvailability p config net = (Inl e, evs) \<longrightarrow>
                (let s2 = backgroundSettled p config (nextPromise s) net completed s1
                 in entry s2 = Some c \<and>
                    background s2 = removeAll (nextPromise s) (background s1) \<and>
                    (\<forall>later. expiresAt c \<le> later \<longrightarrow>
                       (case getAvailability_call later s2 of
                          (r', s3) \<Rightarrow>
                            r' = Resolved \<lparr> data = cached_value c, stale = True \<rparr> \<and>
                            entry s3 = Some (c\<lparr> revalidatePromise := Some (nextPromise s2) \<rparr>) \<and>
                            background s3 = nextPromise s2 # background s2))))))"
proof (intro conjI allI impI)
  fix c
  assume "entry s = Some c \<and> now < expiresAt c"
  then show "getAvailability_call now s = (Resolved \<lparr> data = cached_value c, stale = False \<rparr>, s)"
    by (simp add: call_fresh)
next
  fix c
  assume a: "entry s = Some c \<and> expiresAt c \<le> now \<and> revalidatePromise c = None"
  define s1 where "s1 = s\<lparr> entry := Some (c\<lparr> revalidatePromise := Some (nextPromise s) \<rparr>),
         background := nextPromise s # background s,
         nextPromise := Suc (nextPromise s) \<rparr>"
  have call: "getAvailability_call now s = (Resolved \<lparr> data = cached_value c, stale = True \<rparr>, s1)"
    using a by (simp add: call_expired s1_def)
  have unmarked: "c\<lparr> revalidatePromise := None \<rparr> = c"
    using a by (cases c) simp
  have success: "\<And>fresh evs. refreshAvailability p config net = (Inr fresh, evs) \<Longrightarrow>
      (let s2 = backgroundSettled p config (nextPromise s) net completed s1
       in entry s2 = Some \<lparr> cached_value = fresh,
                            expiresAt = completed + availabilityTtlMs config,
                            revalidatePromise = None \<rparr> \<and>
          background s2 = removeAll (nextPromise s) (background s1) \<and>
          (\<forall>later. later < completed + availabilityTtlMs config \<longrightarrow>
             getAvailability_call later s2 = (Resolved \<lparr> data = fresh, stale = False \<rparr>, s2)))"
    by (simp add: settled_ok Let_def call_fresh)
  have failure: "\<And>e evs. refreshAvailability p config net = (Inl e, evs) \<Longrightarrow>
      (let s2 = backgroundSettled p config (nextPromise s) net completed s1
       in entry s2 = Some c \<and>
          background s2 = removeAll (nextPromise s) (background s1) \<and>
          (\<forall>later. expiresAt c \<le> later \<longrightarrow>
             (case getAvailability_call later s2 of
                (r', s3) \<Rightarrow>
                  r' = Resolved \<lparr> data = cached_value c, stale = True \<rparr> \<and>
                  entry s3 = Some (c\<lparr> revalidatePromise := Some (nextPromise s2) \<rparr>) \<and>
                  background s3 = nextPromise s2 # background s2)))"
  proof -
    fix e evs
    assume r: "refreshAvailability p config net = (Inl e, evs)"
    define s2 where "s2 = backgroundSettled p config (nextPromise s) net completed s1"
    have e2: "entry s2 = Some c"
      unfolding s2_def settled_failed [OF r] by (simp add: s1_def unmarked)
    have b2: "background s2 = removeAll (nextPromise s) (background s1)"
      unfolding s2_def settled_failed [OF r] by simp
    have again: "\<And>later. expiresAt c \<le> later \<Longrightarrow>
        getAvailability_call later s2 =
          (Resolved \<lparr> data = cached_value c, stale = True \<rparr>,
           s2\<lparr> entry := Some (c\<lparr> revalidatePromise := Some (nextPromise s2) \<rparr>),
               background := nextPromise s2 # background s2,
               nextPromise := Suc (nextPromise s2) \<rparr>)"
      using e2 a by (simp add: call_expired)
    show "let s2 = backgroundSettled p config (nextPromise s) net completed s1
       in entry s2 = Some c \<and>
          background s2 = removeAll (nextPromise s) (background s1) \<and>
          (\<forall>later. expiresAt c \<le> later \<longrightarrow>
             (case getAvailability_call later s2 of
                (r', s3) \<Rightarrow>
                  r' = Resolved \<lparr> data = cached_value c, stale = True \<rparr> \<and>
                  entry s3 = Some (c\<lparr> revalidatePromise := Some (nextPromise s2) \<rparr>) \<and>
                  background s3 = nextPromise s2 # background s2))"
      using e2 b2 again unfolding Let_def s2_def [symmetric] by simp
  qed
  show "case getAvailability_call now s of
           (r, s1) \<Rightarrow>
             r = Resolved \<lparr> data = cached_value c, stale = True \<rparr> \<and>
             entry s1 = Some (c\<lparr> revalidatePromise := Some (nextPromise s) \<rparr>) \<and>
             background s1 = nextPromise s # background s \<and>
             suspended s1 = suspended s \<and>
             (\<forall>fresh evs. refreshAvailability p config net = (Inr fresh, evs) \<longrightarrow>
                (let s2 = backgroundSettled p config (nextPromise s) net completed s1
                 in entry s2 = Some \<lparr> cached_value = fresh,
                                      expiresAt = completed + availabilityTtlMs config,
                                      revalidatePromise = None \<rparr> \<and>
                    background s2 = removeAll (nextPromise s) (background s1) \<and>
                    (\<forall>later. later < completed + availabilityTtlMs config \<longrightarrow>
                       getAvailability_call later s2 =
                         (Resolved \<lparr> data = fresh, stale = False \<rparr>, s2)))) \<and>
             (\<forall>e evs. refreshAvailability p config net = (Inl e, evs) \<longrightarrow>
                (let s2 = backgroundSettled p config (nextPromise s) net completed s1
                 in entry s2 = Some c \<and>
                    background s2 = removeAll (nextPromise s) (background s1) \<and>
                    (\<forall>later. expiresAt c \<le> later \<longrightarrow>
                       (case getAvailability_call later s2 of
                          (r', s3) \<Rightarrow>
                            r' = Resolved \<lparr> data = cached_value c, stale = True \<rparr> \<and>
                            entry s3 = Some (c\<lparr> revalidatePromise := Some (nextPromise s2) \<rparr>) \<and>
                            background s3 = nextPromise s2 # background s2))))"
    unfolding call prod.case
    using success failure by (simp add: s1_def)
qed


theorem getAvailability_stale_while_revalidate_witness:
  "getAvailability_call 5 staleSlot = (Resolved \<lparr> data = snapshot, stale = False \<rparr>, staleSlot) \<and>
   fst (getAvailability_call 10 staleSlot) = Resolved \<lparr> data = snapshot, stale = True \<rparr> \<and>
   entry (backgroundSettled examplePlatform exampleConfig 0 netAvailable 20
            (snd (getAvailability_call 10 staleSlot))) =
     Some \<lparr> cached_value =
              [(''p1'', \<lparr> avail_id = ''p1'', avail_freeSpaces = Some (Finite 7),
                         avail_capacity = None, avail_lastUpdated = None \<rparr>)],
            expiresAt = 30020, revalidatePromise = None \<rparr> \<and>
   entry (backgroundSettled examplePlatform exampleConfig 0 netDown 20
            (snd (getAvailability_call 10 staleSlot))) = entry staleSlot"
proof -
  define c where "c = \<lparr> cached_value = snapshot, expiresAt = 10, revalidatePromise = None \<rparr>"
  have fresh: "entry staleSlot = Some c \<and> 5 < expiresAt c"
    by (simp add: staleSlot_def c_def)
  have expired: "entry staleSlot = Some c \<and> expiresAt c \<le> 10 \<and> revalidatePromise c = None"
    by (simp add: staleSlot_def c_def)
  obtain evs where down:
    "refreshAvailability examplePlatform exampleConfig netDown = (Inl (RequestFailed 500 ''down''), evs)"
    using refresh_netDown by (metis prod.collapse)
  have first: "getAvailability_call 5 staleSlot = (Resolved \<lparr> data = snapshot, stale = False \<rparr>, staleSlot)"
    using getAvailability_stale_while_revalidate [where s = staleSlot and now = 5] fresh
    by (simp add: c_def)
  have second:
    "fst (getAvailability_call 10 staleSlot) = Resolved \<lparr> data = snapshot, stale = True \<rparr> \<and>
     entry (backgroundSettled examplePlatform exampleConfig 0 netAvailable 20
              (snd (getAvailability_call 10 staleSlot))) =
       Some \<lparr> cached_value =
                [(''p1'', \<lparr> avail_id = ''p1'', avail_freeSpaces = Some (Finite 7),
                           avail_capacity = None, avail_lastUpdated = None \<rparr>)],
              expiresAt = 20 + availabilityTtlMs exampleConfig, revalidatePromise = None \<rparr>"
    using getAvailability_stale_while_revalidate
            [where s = staleSlot and now = 10 and p = examplePlatform and config = exampleConfig
               and net = netAvailable and completed = 20]
          expired refresh_netAvailable
    by (simp add: case_prod_beta Let_def c_def staleSlot_def)
  have third:
    "entry (backgroundSettled examplePlatform exampleConfig 0 netDown 20
              (snd (getAvailability_call 10 staleSlot))) = Some c"
    using getAvailability_stale_while_revalidate
            [where s = staleSlot and now = 10 and p = examplePlatform and config = exampleConfig
               and net = netDown and completed = 20]
          expired down
    by (simp add: case_prod_beta Let_def staleSlot_def)
  show ?thesis
    using first second third expired by (simp add: exampleConfig_def)
qed


text \<open>What a caller receives, by the state of the slot at the call.\<close>

lemma getAvailability_cached:
  "entry s = Some c \<Longrightarrow>
   getAvailability p config now net s s' = Inr \<lparr> data = cached_value c, stale = (expiresAt c \<le> now) \<rparr>"
  by (auto simp: getAvailability_def getAvailability_call_def)

lemma getAvailability_empty:
  "entry s = None \<Longrightarrow>
   getAvailability p config now net s s' =
     (case fst (refreshAvailability p config net) of
        Inl e \<Rightarrow> Inl e
      | Inr fresh \<Rightarrow> Inr \<lparr> data = fresh, stale = False \<rparr>)"
  by (simp add: getAvailability_def getAvailability_call_def getAvailability_resume_def
           split: prod.splits sum.splits)

text \<open>The refresh against the upstream that is down, with all it does.\<close>

lemma refresh_netDown_trace:
  "refreshAvailability examplePlatform exampleConfig netDown =
     (Inl (RequestFailed 500 ''down''),
      [Fetch ''https://sp.example/availability'' 1,
       LogInfo ''Retrying upstream request''
         [(''attempt'', FNum 1), (''status'', FNum 500),
          (''url'', FStr ''https://sp.example/availability''), (''delay'', FNum 200)],
       Sleep 200,
       Fetch ''https://sp.example/availability'' 2,
       LogInfo ''Retrying upstream request''
         [(''attempt'', FNum 2), (''status'', FNum 500),
          (''url'', FStr ''https://sp.example/availability''), (''delay'', FNum 400)],
       Sleep 400,
       Fetch ''https://sp.example/availability'' 3])"
  unfolding refreshAvailability_def buildUrl_def fetchWithRetries_def
    fetchLoop_step [OF one_le_MAX] one_add_one
  by (simp add: examplePlatform_def exampleConfig_def netDown_def respond_def tryBlock_def
        ok_def fetchLoop_step [OF two_le_MAX] fetchLoop_last RETRY_STATUS_CODES_def
        MAX_ATTEMPTS_def backoff_def)

text \<open>
  C2 fails. Two calls arrive on the empty slot, at times 0 and 1, and each awaits a refresh
  of its own. The refresh of the second call succeeds first: the second caller receives
  the snapshot and the slot holds it, to expire at 30001. Then the refresh of the first
  call fails, after three requests answered with status 500. The first caller receives
  that error although a snapshot exists; the slot still holds the snapshot afterwards,
  and the log has the requests and their retries and no entry of a fallback. The handler
  of line 303 tests the variable \<^verbatim>\<open>cached\<close> that the call read from the slot when it
  was made (line 258), and not the slot. Its fallback of lines 304 to 309 does recover
  the failure with the snapshot it is given, \<open>stale = True\<close> and a log entry: handed the
  snapshot that the slot holds, it serves it.
\<close>

theorem first_fetch_error_despite_snapshot:
  "run examplePlatform exampleConfig emptySlot [Call 0, Call 1] =
     \<lparr> entry = None, background = [],
       suspended = [(0, \<lparr> call_now = 0, call_cached = None \<rparr>),
                    (1, \<lparr> call_now = 1, call_cached = None \<rparr>)],
       nextPromise = 2, logged = [] \<rparr> \<and>
   run examplePlatform exampleConfig emptySlot [Call 0, Call 1, CallDone 1 netAvailable] =
     \<lparr> entry = Some \<lparr> cached_value =
                         [(''p1'', \<lparr> avail_id = ''p1'', avail_freeSpaces = Some (Finite 7),
                                    avail_capacity = None, avail_lastUpdated = None \<rparr>)],
                       expiresAt = 30001, revalidatePromise = None \<rparr>,
       background = [],
       suspended = [(0, \<lparr> call_now = 0, call_cached = None \<rparr>)],
       nextPromise = 2,
       logged = [Fetch ''https://sp.example/availability'' 1] \<rparr> \<and>
   getAvailability examplePlatform exampleConfig 1 netAvailable
     (run examplePlatform exampleConfig emptySlot [Call 0])
     (run examplePlatform exampleConfig emptySlot [Call 0, Call 1]) =
     Inr \<lparr> data = [(''p1'', \<lparr> avail_id = ''p1'', avail_freeSpaces = Some (Finite 7),
                              avail_capacity = None, avail_lastUpdated = None \<rparr>)],
           stale = False \<rparr> \<and>
   getAvailability_resume examplePlatform exampleConfig \<lparr> call_now = 0, call_cached = None \<rparr> netDown
     \<lparr> entry = Some \<lparr> cached_value =
                         [(''p1'', \<lparr> avail_id = ''p1'', avail_freeSpaces = Some (Finite 7),
                                    avail_capacity = None, avail_lastUpdated = None \<rparr>)],
                       expiresAt = 30001, revalidatePromise = None \<rparr>,
       background = [], suspended = [], nextPromise = 2,
       logged = [Fetch ''https://sp.example/availability'' 1] \<rparr> =
     (Inl (RequestFailed 500 ''down''),
      \<lparr> entry = Some \<lparr> cached_value =
                          [(''p1'', \<lparr> avail_id = ''p1'', avail_freeSpaces = Some (Finite 7),
                                     avail_capacity = None, avail_lastUpdated = None \<rparr>)],
                        expiresAt = 30001, revalidatePromise = None \<rparr>,
        background = [], suspended = [], nextPromise = 2,
        logged =
          [Fetch ''https://sp.example/availability'' 1,
           Fetch ''https://sp.example/availability'' 1,
           LogInfo ''Retrying upstream request''
             [(''attempt'', FNum 1), (''status'', FNum 500),
              (''url'', FStr ''https://sp.example/availability''), (''delay'', FNum 200)],
           Sleep 200,
           Fetch ''https://sp.example/availability'' 2,
           LogInfo ''Retrying upstream request''
             [(''attempt'', FNum 2), (''status'', FNum 500),
              (''url'', FStr ''https://sp.example/availability''), (''delay'', FNum 400)],
           Sleep 400,
           Fetch ''https://sp.example/availability'' 3] \<rparr>) \<and>
   snd (getAvailability_resume examplePlatform exampleConfig
          \<lparr> call_now = 0, call_cached = None \<rparr> netDown
          \<lparr> entry = Some \<lparr> cached_value =
                              [(''p1'', \<lparr> avail_id = ''p1'', avail_freeSpaces = Some (Finite 7),
                                         avail_capacity = None, avail_lastUpdated = None \<rparr>)],
                            expiresAt = 30001, revalidatePromise = None \<rparr>,
            background = [], suspended = [], nextPromise = 2,
            logged = [Fetch ''https://sp.example/availability'' 1] \<rparr>) =
     run examplePlatform exampleConfig emptySlot
       [Call 0, Call 1, CallDone 1 netAvailable, CallDone 0 netDown] \<and>
   getAvailability examplePlatform exampleConfig 0 netDown emptySlot
     (run examplePlatform exampleConfig emptySlot [Call 0, Call 1, CallDone 1 netAvailable]) =
     Inl (RequestFailed 500 ''down'') \<and>
   getAvailability_resume examplePlatform exampleConfig
     \<lparr> call_now = 0,
       call_cached = Some \<lparr> cached_value =
                               [(''p1'', \<lparr> avail_id = ''p1'', avail_freeSpaces = Some (Finite 7),
                                          avail_capacity = None, avail_lastUpdated = None \<rparr>)],
                             expiresAt = 30001, revalidatePromise = None \<rparr> \<rparr>
     netDown emptySlot =
     (Inr \<lparr> data = [(''p1'', \<lparr> avail_id = ''p1'', avail_freeSpaces = Some (Finite 7),
                               avail_capacity = None, avail_lastUpdated = None \<rparr>)],
            stale = True \<rparr>,
      \<lparr> entry = None, background = [], suspended = [], nextPromise = 0,
        logged =
          [Fetch ''https://sp.example/availability'' 1,
           LogInfo ''Retrying upstream request''
             [(''attempt'', FNum 1), (''status'', FNum 500),
              (''url'', FStr ''https://sp.example/availability''), (''delay'', FNum 200)],
           Sleep 200,
           Fetch ''https://sp.example/availability'' 2,
           LogInfo ''Retrying upstream request''
             [(''attempt'', FNum 2), (''status'', FNum 500),
              (''url'', FStr ''https://sp.example/availability''), (''delay'', FNum 400)],
           Sleep 400,
           Fetch ''https://sp.example/availability'' 3,
           LogError ''Falling back to stale availability cache''
             [(''error'', FErr (RequestFailed 500 ''down''))]] \<rparr>)"
proof -
  have two:
    "run examplePlatform exampleConfig emptySlot [Call 0, Call 1] =
       \<lparr> entry = None, background = [],
         suspended = [(0, \<lparr> call_now = 0, call_cached = None \<rparr>),
                      (1, \<lparr> call_now = 1, call_cached = None \<rparr>)],
         nextPromise = 2, logged = [] \<rparr>"
    by (simp add: run_def emptySlot_def getAvailability_call_def)
  have stored:
    "run examplePlatform exampleConfig emptySlot [Call 0, Call 1, CallDone 1 netAvailable] =
       \<lparr> entry = Some \<lparr> cached_value =
                           [(''p1'', \<lparr> avail_id = ''p1'', avail_freeSpaces = Some (Finite 7),
                                      avail_capacity = None, avail_lastUpdated = None \<rparr>)],
                         expiresAt = 30001, revalidatePromise = None \<rparr>,
         background = [],
         suspended = [(0, \<lparr> call_now = 0, call_cached = None \<rparr>)],
         nextPromise = 2,
         logged = [Fetch ''https://sp.example/availability'' 1] \<rparr>"
    by (simp add: run_def emptySlot_def getAvailability_call_def getAvailability_resume_def
          refresh_netAvailable exampleConfig_ttl)
  have second:
    "getAvailability examplePlatform exampleConfig 1 netAvailable
       (run examplePlatform exampleConfig emptySlot [Call 0])
       (run examplePlatform exampleConfig emptySlot [Call 0, Call 1]) =
       Inr \<lparr> data = [(''p1'', \<lparr> avail_id = ''p1'', avail_freeSpaces = Some (Finite 7),
                                avail_capacity = None, avail_lastUpdated = None \<rparr>)],
             stale = False \<rparr>"
    by (simp add: getAvailability_def getAvailability_call_def getAvailability_resume_def
          run_def emptySlot_def refresh_netAvailable)
  have failed:
    "getAvailability_resume examplePlatform exampleConfig \<lparr> call_now = 0, call_cached = None \<rparr> netDown
       \<lparr> entry = Some \<lparr> cached_value =
                           [(''p1'', \<lparr> avail_id = ''p1'', avail_freeSpaces = Some (Finite 7),
                                      avail_capacity = None, avail_lastUpdated = None \<rparr>)],
                         expiresAt = 30001, revalidatePromise = None \<rparr>,
         background = [], suspended = [], nextPromise = 2,
         logged = [Fetch ''https://sp.example/availability'' 1] \<rparr> =
       (Inl (RequestFailed 500 ''down''),
        \<lparr> entry = Some \<lparr> cached_value =
                            [(''p1'', \<lparr> avail_id = ''p1'', avail_freeSpaces = Some (Finite 7),
                                       avail_capacity = None, avail_lastUpdated = None \<rparr>)],
                          expiresAt = 30001, revalidatePromise = None \<rparr>,
          background = [], suspended = [], nextPromise = 2,
          logged =
            [Fetch ''https://sp.example/availability'' 1,
             Fetch ''https://sp.example/availability'' 1,
             LogInfo ''Retrying upstream request''
               [(''attempt'', FNum 1), (''status'', FNum 500),
                (''url'', FStr ''https://sp.example/availability''), (''delay'', FNum 200)],
             Sleep 200,
             Fetch ''https://sp.example/availability'' 2,
             LogInfo ''Retrying upstream request''
               [(''attempt'', FNum 2), (''status'', FNum 500),
                (''url'', FStr ''https://sp.example/availability''), (''delay'', FNum 400)],
             Sleep 400,
             Fetch ''https://sp.example/availability'' 3] \<rparr>)"
    by (simp add: getAvailability_resume_def refresh_netDown_trace)
  have last:
    "run examplePlatform exampleConfig emptySlot
       [Call 0, Call 1, CallDone 1 netAvailable, CallDone 0 netDown] =
     step examplePlatform exampleConfig
       (run examplePlatform exampleConfig emptySlot [Call 0, Call 1, CallDone 1 netAvailable])
       (CallDone 0 netDown)"
    by (simp add: run_def)
  have resumed:
    "snd (getAvailability_resume examplePlatform exampleConfig
            \<lparr> call_now = 0, call_cached = None \<rparr> netDown
            \<lparr> entry = Some \<lparr> cached_value =
                                [(''p1'', \<lparr> avail_id = ''p1'', avail_freeSpaces = Some (Finite 7),
                                           avail_capacity = None, avail_lastUpdated = None \<rparr>)],
                              expiresAt = 30001, revalidatePromise = None \<rparr>,
              background = [], suspended = [], nextPromise = 2,
              logged = [Fetch ''https://sp.example/availability'' 1] \<rparr>) =
       run examplePlatform exampleConfig emptySlot
         [Call 0, Call 1, CallDone 1 netAvailable, CallDone 0 netDown]"
    unfolding last stored by simp
  have caller:
    "getAvailability examplePlatform exampleConfig 0 netDown emptySlot
       (run examplePlatform exampleConfig emptySlot [Call 0, Call 1, CallDone 1 netAvailable]) =
       Inl (RequestFailed 500 ''down'')"
    by (simp add: getAvailability_def getAvailability_call_def getAvailability_resume_def
          emptySlot_def refresh_netDown_trace)
  have fallback:
    "getAvailability_resume examplePlatform exampleConfig
       \<lparr> call_now = 0,
         call_cached = Some \<lparr> cached_value =
                                 [(''p1'', \<lparr> avail_id = ''p1'', avail_freeSpaces = Some (Finite 7),
                                            avail_capacity = None, avail_lastUpdated = None \<rparr>)],
                               expiresAt = 30001, revalidatePromise = None \<rparr> \<rparr>
       netDown emptySlot =
       (Inr \<lparr> data = [(''p1'', \<lparr> avail_id = ''p1'', avail_freeSpaces = Some (Finite 7),
                                 avail_capacity = None, avail_lastUpdated = None \<rparr>)],
              stale = True \<rparr>,
        \<lparr> entry = None, background = [], suspended = [], nextPromise = 0,
          logged =
            [Fetch ''https://sp.example/availability'' 1,
             LogInfo ''Retrying upstream request''
               [(''attempt'', FNum 1), (''status'', FNum 500),
                (''url'', FStr ''https://sp.example/availability''), (''delay'', FNum 200)],
             Sleep 200,
             Fetch ''https://sp.example/availability'' 2,
             LogInfo ''Retrying upstream request''
               [(''attempt'', FNum 2), (''status'', FNum 500),
                (''url'', FStr ''https://sp.example/availability''), (''delay'', FNum 400)],
             Sleep 400,
             Fetch ''https://sp.example/availability'' 3,
             LogError ''Falling back to stale availability cache''
               [(''error'', FErr (RequestFailed 500 ''down''))]] \<rparr>)"
    by (simp add: getAvailability_resume_def refresh_netDown_trace emptySlot_def)
  show ?thesis
    using two stored second failed resumed caller fallback by (intro conjI)
qed

text \<open>The fallback is never reached: a call awaits its refresh only when it found the slot
  empty, so every suspended call has captured an empty slot, whatever calls arrive and
  however the refreshes settle.\<close>

lemma suspended_found_slot_empty_step:
  "\<forall>kc \<in> set (suspended s). call_cached (snd kc) = None \<Longrightarrow>
   \<forall>kc \<in> set (suspended (step p config s a)). call_cached (snd kc) = None"
proof (cases a)
  case (Call now)
  assume "\<forall>kc \<in> set (suspended s). call_cached (snd kc) = None"
  then show ?thesis using Call
    by (auto simp: getAvailability_call_def Let_def split: option.splits if_splits)
next
  case (BackgroundDone promise net completed)
  assume "\<forall>kc \<in> set (suspended s). call_cached (snd kc) = None"
  then show ?thesis using BackgroundDone
    by (auto simp: backgroundSettled_def split: prod.splits sum.splits)
next
  case (CallDone k net)
  assume inv: "\<forall>kc \<in> set (suspended s). call_cached (snd kc) = None"
  have "set (AList.delete k (suspended s)) \<subseteq> set (suspended s)"
    by (auto simp: AList.delete_eq)
  then show ?thesis using CallDone inv
    by (auto simp: getAvailability_resume_def split: option.splits prod.splits sum.splits)
qed

lemma suspended_found_slot_empty:
  "\<forall>kc \<in> set (suspended (run p config emptySlot actions)). call_cached (snd kc) = None"
proof -
  have "\<forall>kc \<in> set (suspended s). call_cached (snd kc) = None \<Longrightarrow>
        \<forall>kc \<in> set (suspended (run p config s actions)). call_cached (snd kc) = None" for s
    unfolding run_def
  proof (induction actions arbitrary: s)
    case Nil
    then show ?case by simp
  next
    case (Cons a actions)
    show ?case
      using Cons.IH [OF suspended_found_slot_empty_step [OF Cons.prems, of p config a]]
      by simp
  qed
  from this [of emptySlot] show ?thesis by (simp add: emptySlot_def)
qed

text \<open>
  The rest of the claim holds when the snapshot is one that the call itself finds in the
  slot. A caller receives an error exactly when the slot is empty at the call and the
  refresh that the call awaits fails, and then it is the error of that refresh. When the
  slot holds a snapshot at the call the caller receives that snapshot, stale when it has
  expired, whatever any refresh does; a background refresh that fails clears the handle,
  keeps the snapshot and its expiry time, and writes a log entry.
\<close>

lemma getAvailability_error_by_slot_at_call:
  "((\<exists>e. getAvailability p config now net s s' = Inl e) \<longleftrightarrow>
      (entry s = None \<and> (\<exists>e. fst (refreshAvailability p config net) = Inl e))) \<and>
   (entry s = None \<longrightarrow>
      getAvailability p config now net s s' =
        (case fst (refreshAvailability p config net) of
           Inl e \<Rightarrow> Inl e
         | Inr fresh \<Rightarrow> Inr \<lparr> data = fresh, stale = False \<rparr>)) \<and>
   (\<forall>c. entry s = Some c \<longrightarrow>
      getAvailability p config now net s s' =
        Inr \<lparr> data = cached_value c, stale = (expiresAt c \<le> now) \<rparr>) \<and>
   (\<forall>c e evs. entry s = Some c \<and> refreshAvailability p config net = (Inl e, evs) \<longrightarrow>
      entry (backgroundSettled p config promise net completed s) =
        Some (c\<lparr> revalidatePromise := None \<rparr>) \<and>
      logged (backgroundSettled p config promise net completed s) =
        logged s @ evs @ [LogError ''Failed to refresh availability'' [(''error'', FErr e)]])"
proof -
  have iff: "(\<exists>e. getAvailability p config now net s s' = Inl e) \<longleftrightarrow>
      (entry s = None \<and> (\<exists>e. fst (refreshAvailability p config net) = Inl e))"
  proof (cases "entry s")
    case None
    then show ?thesis
      by (simp add: getAvailability_empty split: sum.splits)
  next
    case (Some c)
    then show ?thesis by (simp add: getAvailability_cached)
  qed
  show ?thesis
    using iff by (simp add: getAvailability_empty getAvailability_cached settled_failed)
qed

lemma getAvailability_error_by_slot_at_call_example:
  "getAvailability examplePlatform exampleConfig 10 netDown emptySlot emptySlot =
     Inl (RequestFailed 500 ''down'') \<and>
   getAvailability examplePlatform exampleConfig 10 netDown staleSlot staleSlot =
     Inr \<lparr> data = snapshot, stale = True \<rparr> \<and>
   entry (backgroundSettled examplePlatform exampleConfig 0 netDown 20 staleSlot) = entry staleSlot"
  by (simp add: getAvailability_empty getAvailability_cached refresh_netDown_trace emptySlot_def
        staleSlot_def settled_failed)

text \<open>Once the slot is in single flight it stays so, whatever calls arrive and however the
  refreshes settle.\<close>

lemma singleFlight_step: "singleFlight s \<Longrightarrow> singleFlight (step p config s a)"
proof (cases a)
  case (Call now)
  assume sf: "singleFlight s"
  then obtain c where c: "entry s = Some c" by (auto simp: singleFlight_def split: option.splits)
  show ?thesis
  proof (cases "now < expiresAt c")
    case True
    with c sf Call show ?thesis by (simp add: call_fresh)
  next
    case False
    then have exp: "expiresAt c \<le> now" by simp
    show ?thesis
    proof (cases "revalidatePromise c")
      case None
      with c sf Call exp show ?thesis by (simp add: call_expired singleFlight_def)
    next
      case (Some h)
      with c sf Call exp show ?thesis by (simp add: call_marked)
    qed
  qed
next
  case (BackgroundDone promise net completed)
  assume sf: "singleFlight s"
  then show ?thesis using BackgroundDone
    by (auto simp: singleFlight_def backgroundSettled_def split: option.splits prod.splits sum.splits)
next
  case (CallDone k net)
  assume sf: "singleFlight s"
  then show ?thesis using CallDone by (simp add: singleFlight_def)
qed

lemma singleFlight_run: "singleFlight s \<Longrightarrow> singleFlight (run p config s actions)"
  unfolding run_def by (induction actions arbitrary: s) (simp_all add: singleFlight_step)

lemma singleFlight_inFlight: "singleFlight s \<Longrightarrow> inFlight s \<le> 1"
  by (auto simp: singleFlight_def inFlight_def split: option.splits)

text \<open>
  C3, as the claim states it, fails on the empty slot: two calls that arrive before the
  first fetch has settled both await a refresh of their own.
\<close>

theorem two_first_calls_two_refreshes:
  "inFlight (run examplePlatform exampleConfig emptySlot [Call 0, Call 1]) = 2"
  by (simp add: run_def inFlight_def emptySlot_def getAvailability_call_def)

text \<open>
  C3, amended. A call made while the entry is expired and carries a handle returns the
  stale value at once and changes nothing: it starts no refresh. And from a state in which
  the slot holds a snapshot, no call is suspended on a first fetch and the only refresh in
  flight, if any, is the one the entry's handle names, this remains so whatever calls
  arrive and however the refreshes settle: at most one refresh is in flight at any later
  time.
\<close>

theorem single_flight_once_populated:
  "(\<forall>c h. entry s = Some c \<and> expiresAt c \<le> now \<and> revalidatePromise c = Some h \<longrightarrow>
      getAvailability_call now s = (Resolved \<lparr> data = cached_value c, stale = True \<rparr>, s)) \<and>
   (singleFlight s \<longrightarrow>
      singleFlight (run p config s actions) \<and> inFlight (run p config s actions) \<le> 1)"
  using singleFlight_inFlight [OF singleFlight_run, of s p config actions]
  by (simp add: call_marked singleFlight_run)

theorem single_flight_once_populated_witness:
  "singleFlight staleSlot \<and>
   inFlight (run examplePlatform exampleConfig staleSlot [Call 10, Call 11, Call 12]) = 1 \<and>
   getAvailability_call 11 (run examplePlatform exampleConfig staleSlot [Call 10]) =
     (Resolved \<lparr> data = snapshot, stale = True \<rparr>,
      run examplePlatform exampleConfig staleSlot [Call 10])"
proof -
  have sf: "singleFlight staleSlot"
    by (simp add: singleFlight_def staleSlot_def)
  have started: "0 < inFlight (run examplePlatform exampleConfig staleSlot [Call 10, Call 11, Call 12])"
    by (simp add: run_def inFlight_def staleSlot_def getAvailability_call_def)
  have marked:
    "entry (run examplePlatform exampleConfig staleSlot [Call 10]) =
       Some \<lparr> cached_value = snapshot, expiresAt = 10, revalidatePromise = Some 0 \<rparr>"
    by (simp add: run_def staleSlot_def getAvailability_call_def)
  have one: "inFlight (run examplePlatform exampleConfig staleSlot [Call 10, Call 11, Call 12]) \<le> 1"
    using single_flight_once_populated
            [where s = staleSlot and p = examplePlatform and config = exampleConfig
               and actions = "[Call 10, Call 11, Call 12]"] sf
    by simp
  have served:
    "getAvailability_call 11 (run examplePlatform exampleConfig staleSlot [Call 10]) =
       (Resolved \<lparr> data = snapshot, stale = True \<rparr>,
        run examplePlatform exampleConfig staleSlot [Call 10])"
    using single_flight_once_populated
            [where s = "run examplePlatform exampleConfig staleSlot [Call 10]" and now = 11]
          marked
    by simp
  show ?thesis
    using sf started one served by simp
qed


text \<open>A first call that is alone on the empty slot and whose refresh succeeds leaves the
  slot in single flight.\<close>

lemma first_call_alone_reaches_singleFlight:
  "refreshAvailability p config net = (Inr fresh, evs) \<Longrightarrow>
   singleFlight (run p config emptySlot [Call now, CallDone 0 net])"
  by (simp add: run_def emptySlot_def getAvailability_call_def getAvailability_resume_def
        singleFlight_def)

text \<open>The hypothesis that no call is suspended on a first fetch is needed: a first fetch
  that settles after a later background refresh has started replaces the marked entry by
  one without a handle, and the next call starts a second background refresh while the
  first one is still in flight.\<close>

lemma late_first_fetch_unmarks_slot:
  "background (run examplePlatform exampleConfig emptySlot
      [Call 0, Call 1, CallDone 1 netAvailable, Call 30001, CallDone 0 netAvailable, Call 30002]) = [3, 2]"
  by (simp add: run_def emptySlot_def getAvailability_call_def getAvailability_resume_def
        refresh_netAvailable exampleConfig_ttl)

section \<open>Properties of the ranking\<close>

lemma mset_insertBy: "mset (insertBy cmp a xs) = add_mset a (mset xs)"
  by (induction xs) auto

lemma mset_arraySort: "mset (arraySort cmp xs) = mset xs"
  by (induction xs) (auto simp: arraySort_def mset_insertBy)

lemma set_insertBy: "set (insertBy cmp a xs) = insert a (set xs)"
  by (induction xs) auto

lemma set_arraySort: "set (arraySort cmp xs) = set xs"
  using mset_arraySort [of cmp xs] by (metis set_mset_mset)

text \<open>A comparison function that reads as a total preorder on the elements of the array
  leaves the array ordered by it.\<close>

lemma sorted_insertBy:
  assumes reads: "\<And>x y. x \<in> S \<Longrightarrow> y \<in> S \<Longrightarrow> (signRead (cmp x y) \<le> 0) = R x y"
    and total: "\<And>x y. x \<in> S \<Longrightarrow> y \<in> S \<Longrightarrow> R x y \<or> R y x"
    and trans: "\<And>x y z. x \<in> S \<Longrightarrow> y \<in> S \<Longrightarrow> z \<in> S \<Longrightarrow> R x y \<Longrightarrow> R y z \<Longrightarrow> R x z"
  shows "a \<in> S \<Longrightarrow> set xs \<subseteq> S \<Longrightarrow> sorted_wrt R xs \<Longrightarrow> sorted_wrt R (insertBy cmp a xs)"
proof (induction xs)
  case Nil
  then show ?case by simp
next
  case (Cons b bs)
  have b: "b \<in> S" and bs: "set bs \<subseteq> S" using Cons.prems by auto
  show ?case
  proof (cases "signRead (cmp a b) \<le> 0")
    case True
    then have ab: "R a b" using reads Cons.prems(1) b by blast
    have "R a y" if "y \<in> set bs" for y
      using trans [of a b y] ab Cons.prems that by auto
    with True ab Cons.prems show ?thesis by auto
  next
    case False
    then have "\<not> R a b" using reads Cons.prems(1) b by blast
    then have "R b a" using total Cons.prems(1) b by blast
    with False Cons.IH Cons.prems bs show ?thesis by (auto simp: set_insertBy)
  qed
qed

lemma sorted_arraySort:
  assumes reads: "\<And>x y. x \<in> S \<Longrightarrow> y \<in> S \<Longrightarrow> (signRead (cmp x y) \<le> 0) = R x y"
    and total: "\<And>x y. x \<in> S \<Longrightarrow> y \<in> S \<Longrightarrow> R x y \<or> R y x"
    and trans: "\<And>x y z. x \<in> S \<Longrightarrow> y \<in> S \<Longrightarrow> z \<in> S \<Longrightarrow> R x y \<Longrightarrow> R y z \<Longrightarrow> R x z"
  shows "set xs \<subseteq> S \<Longrightarrow> sorted_wrt R (arraySort cmp xs)"
proof (induction xs)
  case Nil
  show ?case by (simp add: arraySort_def)
next
  case (Cons a xs)
  have "sorted_wrt R (insertBy cmp a (arraySort cmp xs))"
    using Cons by (intro sorted_insertBy [OF reads total trans]) (auto simp: set_arraySort)
  then show ?case by (simp add: arraySort_def)
qed

text \<open>The order of the numbers other than NaN is total, and on them the comparator's
  operations agree with it.\<close>

lemma numberLess_total: "a \<noteq> NaN \<Longrightarrow> b \<noteq> NaN \<Longrightarrow> numberLess a b \<or> a = b \<or> numberLess b a"
  by (cases a; cases b) auto

lemma numberLess_irrefl: "\<not> numberLess a a"
  by (cases a) auto

lemma numberLess_asym: "numberLess a b \<Longrightarrow> \<not> numberLess b a"
  by (cases a; cases b) auto

lemma numberLess_trans: "numberLess a b \<Longrightarrow> numberLess b c \<Longrightarrow> numberLess a c"
  by (cases a; cases b; cases c) auto

lemma strictEquals_eq: "a \<noteq> NaN \<Longrightarrow> strictEquals a b = (a = b)"
  by (cases a; cases b) auto

lemma signRead_jsMinus:
  "a \<noteq> NaN \<Longrightarrow> b \<noteq> NaN \<Longrightarrow> (signRead (jsMinus a b) \<le> 0) = (numberLess a b \<or> a = b)"
  by (cases a; cases b) auto

text \<open>On recommendations without NaN the comparator puts \<open>a\<close> before or level with \<open>b\<close>
  exactly when \<open>a\<close> is ranked before \<open>b\<close>.\<close>

lemma free_not_NaN:
  "freeSpaces a \<noteq> Some NaN \<Longrightarrow> (case freeSpaces a of None \<Rightarrow> Finite (- 1) | Some f \<Rightarrow> f) \<noteq> NaN"
  by (cases "freeSpaces a") auto

lemma comparator_reads:
  assumes "distanceMeters a \<noteq> NaN" "freeSpaces a \<noteq> Some NaN"
    and "distanceMeters b \<noteq> NaN" "freeSpaces b \<noteq> Some NaN"
  shows "(signRead (comparator a b) \<le> 0) = rankedBefore a b"
  using assms free_not_NaN [of a] free_not_NaN [of b]
  by (auto simp: comparator_def rankedBefore_def Let_def strictEquals_eq signRead_jsMinus
        numberLess_irrefl)

lemma rankedBefore_total:
  assumes "distanceMeters a \<noteq> NaN" "freeSpaces a \<noteq> Some NaN"
    and "distanceMeters b \<noteq> NaN" "freeSpaces b \<noteq> Some NaN"
  shows "rankedBefore a b \<or> rankedBefore b a"
  using assms free_not_NaN [of a] free_not_NaN [of b]
    numberLess_total [of "distanceMeters a" "distanceMeters b"]
    numberLess_total [of "case freeSpaces a of None \<Rightarrow> Finite (- 1) | Some f \<Rightarrow> f"
                         "case freeSpaces b of None \<Rightarrow> Finite (- 1) | Some f \<Rightarrow> f"]
  by (auto simp: rankedBefore_def Let_def)

lemma rankedBefore_trans:
  assumes "rankedBefore a b" "rankedBefore b c"
  shows "rankedBefore a c"
  using assms
  by (auto simp: rankedBefore_def Let_def dest: numberLess_trans)

lemma sortRecommendations_result:
  "sortRecommendations h results =
     (h @ [arraySort comparator (h ! results)], length h)"
  by (simp add: sortRecommendations_def spread_def sortInPlace_def)

text \<open>A recommendation whose distance is NaN is ranked neither before nor after any
  other, so no arrangement of an array of two or more elements that holds one is ordered,
  whatever the sort does.\<close>

lemma numberLess_NaN: "\<not> numberLess a NaN" "\<not> numberLess NaN b"
  by (cases a) auto

lemma rankedBefore_NaN:
  "distanceMeters a = NaN \<Longrightarrow> distanceMeters b \<noteq> NaN \<Longrightarrow>
   \<not> rankedBefore a b \<and> \<not> rankedBefore b a"
  by (auto simp: rankedBefore_def numberLess_NaN)

lemma sorted_wrt_pair:
  "sorted_wrt R ys \<Longrightarrow> x \<in> set ys \<Longrightarrow> y \<in> set ys \<Longrightarrow> x \<noteq> y \<Longrightarrow> R x y \<or> R y x"
  by (induction ys) auto

lemma NaN_distance_never_ordered:
  assumes "n \<in> set ys" "distanceMeters n = NaN" "r \<in> set ys" "distanceMeters r \<noteq> NaN"
  shows "\<not> sorted_wrt rankedBefore ys"
proof
  assume "sorted_wrt rankedBefore ys"
  moreover have "n \<noteq> r" using assms by auto
  ultimately have "rankedBefore n r \<or> rankedBefore r n"
    using assms sorted_wrt_pair by metis
  then show False using assms rankedBefore_NaN [of n r] by auto
qed

text \<open>
  C9, as claimed, fails. Between the recommendations at 300 and at 100 metres stands one
  whose distance is NaN: the comparator returns NaN for it, which the sort reads as
  equal, so the array is returned in the order of the input, the farther facility before
  the nearer, and it is not ordered by distance.
\<close>

theorem sortRecommendations_NaN_distance_unordered:
  "(case sortRecommendations
           [[recommendation ''x'' (Finite 300) None, recommendation ''n'' NaN None,
             recommendation ''y'' (Finite 100) None]] 0 of
      (h', out) \<Rightarrow>
        map rec_id (h' ! out) = [''x'', ''n'', ''y''] \<and>
        map distanceMeters (h' ! out) = [Finite 300, NaN, Finite 100] \<and>
        \<not> sorted_wrt rankedBefore (h' ! out))"
  by (simp add: sortRecommendations_result arraySort_def comparator_def recommendation_def
        rankedBefore_def)

text \<open>
  C9, amended. For every list of recommendations in which no distance and no free-space
  count is NaN, the array returned by \<^verbatim>\<open>sortRecommendations\<close> is ordered by distance
  ascending and, at equal distance, by free spaces descending with a null count read as
  \<open>-1\<close>; it holds the elements of the input. At equal distance the free spaces 2, 5, null
  of a, b, c give the order b, a, c.
\<close>

theorem sortRecommendations_order:
  "((\<forall>r \<in> set (h ! results). distanceMeters r \<noteq> NaN \<and> freeSpaces r \<noteq> Some NaN) \<longrightarrow>
    (case sortRecommendations h results of
       (h', out) \<Rightarrow>
         sorted_wrt
           (\<lambda>a b. numberLess (distanceMeters a) (distanceMeters b) \<or>
                  (distanceMeters a = distanceMeters b \<and>
                   (let freeA = (case freeSpaces a of None \<Rightarrow> Finite (- 1) | Some f \<Rightarrow> f);
                        freeB = (case freeSpaces b of None \<Rightarrow> Finite (- 1) | Some f \<Rightarrow> f)
                    in numberLess freeB freeA \<or> freeB = freeA)))
           (h' ! out) \<and>
         mset (h' ! out) = mset (h ! results))) \<and>
   (case sortRecommendations
           [[recommendation ''a'' (Finite 100) (Some (Finite 2)),
             recommendation ''b'' (Finite 100) (Some (Finite 5)),
             recommendation ''c'' (Finite 100) None]] 0 of
      (h', out) \<Rightarrow> map rec_id (h' ! out) = [''b'', ''a'', ''c''])"
proof -
  have ordered: "sorted_wrt rankedBefore (arraySort comparator (h ! results))"
    if "\<forall>r \<in> set (h ! results). distanceMeters r \<noteq> NaN \<and> freeSpaces r \<noteq> Some NaN"
  proof (rule sorted_arraySort
      [where S = "{r. distanceMeters r \<noteq> NaN \<and> freeSpaces r \<noteq> Some NaN}"])
    show "set (h ! results) \<subseteq> {r. distanceMeters r \<noteq> NaN \<and> freeSpaces r \<noteq> Some NaN}"
      using that by auto
  next
    fix x y :: FacilityRecommendation
    assume "x \<in> {r. distanceMeters r \<noteq> NaN \<and> freeSpaces r \<noteq> Some NaN}"
      and "y \<in> {r. distanceMeters r \<noteq> NaN \<and> freeSpaces r \<noteq> Some NaN}"
    then show "(signRead (comparator x y) \<le> 0) = rankedBefore x y"
      and "rankedBefore x y \<or> rankedBefore y x"
      by (simp_all add: comparator_reads rankedBefore_total)
  next
    fix x y z :: FacilityRecommendation
    assume "rankedBefore x y" "rankedBefore y z"
    then show "rankedBefore x z" by (rule rankedBefore_trans)
  qed
  have order: "rankedBefore =
     (\<lambda>a b. numberLess (distanceMeters a) (distanceMeters b) \<or>
            (distanceMeters a = distanceMeters b \<and>
             (let freeA = (case freeSpaces a of None \<Rightarrow> Finite (- 1) | Some f \<Rightarrow> f);
                  freeB = (case freeSpaces b of None \<Rightarrow> Finite (- 1) | Some f \<Rightarrow> f)
              in numberLess freeB freeA \<or> freeB = freeA)))"
    by (intro ext) (simp only: rankedBefore_def)
  have example:
    "map rec_id (arraySort comparator
       [recommendation ''a'' (Finite 100) (Some (Finite 2)),
        recommendation ''b'' (Finite 100) (Some (Finite 5)),
        recommendation ''c'' (Finite 100) None]) = [''b'', ''a'', ''c'']"
    by (simp add: arraySort_def comparator_def recommendation_def)
  show ?thesis
    using ordered example unfolding order
    by (simp add: sortRecommendations_result mset_arraySort)
qed

theorem sortRecommendations_order_witness:
  "NaN \<notin> set (map distanceMeters
                 ([[recommendation ''far'' PosInfinity None,
                   recommendation ''c'' (Finite 200) (Some (Finite 9)),
                   recommendation ''a'' (Finite 100) (Some (Finite 2)),
                   recommendation ''d'' (Finite 100) None,
                   recommendation ''b'' (Finite 100) (Some (Finite 5))]] ! 0)) \<and>
   Some NaN \<notin> set (map freeSpaces
                 ([[recommendation ''far'' PosInfinity None,
                   recommendation ''c'' (Finite 200) (Some (Finite 9)),
                   recommendation ''a'' (Finite 100) (Some (Finite 2)),
                   recommendation ''d'' (Finite 100) None,
                   recommendation ''b'' (Finite 100) (Some (Finite 5))]] ! 0)) \<and>
   (case sortRecommendations
           [[recommendation ''far'' PosInfinity None,
             recommendation ''c'' (Finite 200) (Some (Finite 9)),
             recommendation ''a'' (Finite 100) (Some (Finite 2)),
             recommendation ''d'' (Finite 100) None,
             recommendation ''b'' (Finite 100) (Some (Finite 5))]] 0 of
      (h', out) \<Rightarrow>
        map rec_id (h' ! out) = [''b'', ''a'', ''d'', ''c'', ''far''] \<and>
        sorted_wrt
          (\<lambda>a b. numberLess (distanceMeters a) (distanceMeters b) \<or>
                 (distanceMeters a = distanceMeters b \<and>
                  (let freeA = (case freeSpaces a of None \<Rightarrow> Finite (- 1) | Some f \<Rightarrow> f);
                       freeB = (case freeSpaces b of None \<Rightarrow> Finite (- 1) | Some f \<Rightarrow> f)
                   in numberLess freeB freeA \<or> freeB = freeA)))
          (h' ! out))"
proof -
  have result:
    "map rec_id (arraySort comparator
       [recommendation ''far'' PosInfinity None,
        recommendation ''c'' (Finite 200) (Some (Finite 9)),
        recommendation ''a'' (Finite 100) (Some (Finite 2)),
        recommendation ''d'' (Finite 100) None,
        recommendation ''b'' (Finite 100) (Some (Finite 5))])
     = [''b'', ''a'', ''d'', ''c'', ''far'']"
    by (simp add: arraySort_def comparator_def recommendation_def)
  have clean:
    "\<forall>r \<in> set ([[recommendation ''far'' PosInfinity None,
                   recommendation ''c'' (Finite 200) (Some (Finite 9)),
                   recommendation ''a'' (Finite 100) (Some (Finite 2)),
                   recommendation ''d'' (Finite 100) None,
                   recommendation ''b'' (Finite 100) (Some (Finite 5))]] ! 0).
      distanceMeters r \<noteq> NaN \<and> freeSpaces r \<noteq> Some NaN"
    by (simp add: recommendation_def)
  show ?thesis
    using sortRecommendations_order
            [of "[[recommendation ''far'' PosInfinity None,
                   recommendation ''c'' (Finite 200) (Some (Finite 9)),
                   recommendation ''a'' (Finite 100) (Some (Finite 2)),
                   recommendation ''d'' (Finite 100) None,
                   recommendation ''b'' (Finite 100) (Some (Finite 5))]]" 0]
      result clean
    by (simp add: sortRecommendations_result recommendation_def)
qed

text \<open>
  C10. \<^verbatim>\<open>sortRecommendations\<close> returns a new array: its reference is not one of the
  heap it was called in, its elements are the elements of the input, each as often as
  there, and every array that existed before the call, the input among them, is
  unchanged.
\<close>

theorem sortRecommendations_permutation_fresh:
  "results < length h \<Longrightarrow>
   (case sortRecommendations h results of
      (h', out) \<Rightarrow>
        mset (h' ! out) = mset (h ! results) \<and>
        out = length h \<and> out \<noteq> results \<and>
        length h' = Suc (length h) \<and> take (length h) h' = h \<and>
        h' ! results = h ! results)"
  by (simp add: sortRecommendations_result mset_arraySort nth_append)

theorem sortRecommendations_permutation_fresh_witness:
  "(0::nat) < length [[recommendation ''b'' (Finite 200) None,
                       recommendation ''a'' (Finite 100) None]] \<and>
   (case sortRecommendations [[recommendation ''b'' (Finite 200) None,
                               recommendation ''a'' (Finite 100) None]] 0 of
      (h', out) \<Rightarrow>
        h' = [[recommendation ''b'' (Finite 200) None, recommendation ''a'' (Finite 100) None],
              [recommendation ''a'' (Finite 100) None, recommendation ''b'' (Finite 200) None]] \<and>
        out = 1)"
  using sortRecommendations_permutation_fresh
          [of 0 "[[recommendation ''b'' (Finite 200) None, recommendation ''a'' (Finite 100) None]]"]
  by (simp add: sortRecommendations_result arraySort_def comparator_def recommendation_def)

end
